theory Spec2Isabelle
  imports Main "HOL-Library.Word"
begin

unbundle bit_operations_syntax

section \<open>Data model of \<^verbatim>\<open>wayland_display.c\<close>\<close>

text \<open>
  Machine integers: \<^verbatim>\<open>uint8_t\<close>, \<^verbatim>\<open>uint16_t\<close> and \<^verbatim>\<open>uint32_t\<close> are words, so that
  arithmetic wraps as in C. \<^verbatim>\<open>int\<close> values (descriptors, return codes) are \<open>int\<close>.
  \<^verbatim>\<open>size_t\<close> offsets are \<open>nat\<close>; the two \<^verbatim>\<open>size_t\<close> subtractions of the source that
  can go below zero are written with their wrap-around modulo \<open>2 ^ 64\<close>.
\<close>

type_synonym byte = "8 word"
type_synonym uint16 = "16 word"
type_synonym uint32 = "32 word"

text \<open>
  A pointer to bytes is modelled by what can be read through it: the bytes from its
  target up to the end of the array it points into. \<open>None\<close> is \<^verbatim>\<open>NULL\<close>.
\<close>

type_synonym ptr = "byte list option"

datatype SurfaceState = NONE | ACKED_CONFIGURE | SURFACE_ATTACHED

record ApplicationState =
  socket_fd :: int
  shm_fd :: int
  registry_id :: uint32
  shm_id :: uint32
  shm_pool_id :: uint32
  frame_buffer_id :: uint32
  compositor_id :: uint32
  xdg_wm_base_id :: uint32
  surface_id :: uint32
  xdg_surface_id :: uint32
  xdg_toplevel_id :: uint32
  binding_done :: int
  surface_state :: SurfaceState
  width :: uint32
  height :: uint32
  color_channels :: uint32
  stride :: uint32
  image_buffer_size :: uint32
  image_buffer :: ptr

record ParsedWaylandEvent =
  object_id :: uint32
  opcode :: uint16
  payload_size :: uint16
  payload :: ptr

text \<open>
  Standard output is a list of \<^verbatim>\<open>printf\<close> calls: the format string (without its final
  newline) and the arguments. \<open>ArgErrno\<close> stands for \<^verbatim>\<open>strerror(errno)\<close>.
\<close>

datatype log_arg =
    ArgU uint32
  | ArgD int
  | ArgS "byte list"
  | ArgPath string
  | ArgErrno

text \<open>System calls that leave the process, in the order they are made.\<close>

datatype syscall =
    SysSend int "byte list"
  | SysSendMsg int "byte list" int
  | SysClose int
  | SysMunmap nat

text \<open>
  The mutable state outside \<open>ApplicationState\<close>: the static counter of
  \<^verbatim>\<open>NextWaylandID\<close>, the global flag \<^verbatim>\<open>should_exit\<close>, standard output and the
  system calls made so far.
\<close>

record world =
  next_id :: uint32
  should_exit :: int
  stdout :: "(string \<times> log_arg list) list"
  syscalls :: "syscall list"

text \<open>
  What the operating system answers. \<open>send_ret env k data\<close> is the return value of
  the \<^verbatim>\<open>send\<close> or \<^verbatim>\<open>sendmsg\<close> call made when \<open>k\<close> system calls have been logged.
\<close>

record env =
  xdg_runtime_dir :: "string option"
  wayland_display :: "string option"
  socket_ret :: int
  connect_ret :: int
  time_now :: int
  shm_open_ret :: int
  shm_unlink_ret :: int
  ftruncate_ret :: int
  mmap_ok :: bool
  sigaction_ret :: int
  send_ret :: "nat \<Rightarrow> byte list \<Rightarrow> int"

text \<open>
  How a call ends: it returns (\<open>Ret\<close>); the process ends inside it by \<^verbatim>\<open>exit(status)\<close>
  (\<open>Exit\<close>, with the world at that moment); its behaviour is undefined in C because it
  reads through \<^verbatim>\<open>NULL\<close> or outside an array, or writes an array outside its bounds
  (\<open>Undef\<close>: the call does not return; on the machines the program runs on, a read
  through \<^verbatim>\<open>NULL\<close> kills the process); or it waits for ever in \<^verbatim>\<open>recv\<close> (\<open>Blocked\<close>).
\<close>

datatype 'a outcome = Ret 'a | Exit int world | Undef | Blocked

definition and_then :: "'a outcome \<Rightarrow> ('a \<Rightarrow> 'b outcome) \<Rightarrow> 'b outcome" where
  "and_then m f = (case m of Ret x \<Rightarrow> f x | Exit c w \<Rightarrow> Exit c w | Undef \<Rightarrow> Undef
     | Blocked \<Rightarrow> Blocked)"

definition defined :: "'a option \<Rightarrow> ('a \<Rightarrow> 'b outcome) \<Rightarrow> 'b outcome" where
  "defined m f = (case m of None \<Rightarrow> Undef | Some x \<Rightarrow> f x)"

definition printf :: "string \<Rightarrow> log_arg list \<Rightarrow> world \<Rightarrow> world" where
  "printf fmt args w = w\<lparr>stdout := stdout w @ [(fmt, args)]\<rparr>"

section \<open>Memory\<close>

text \<open>
  \<^verbatim>\<open>*((uint32_t *) p)\<close> on the little-endian machines the program is built for.
\<close>

definition bytes_of_u32 :: "uint32 \<Rightarrow> byte list" where
  "bytes_of_u32 v = [ucast v, ucast (drop_bit 8 v), ucast (drop_bit 16 v), ucast (drop_bit 24 v)]"

definition u32_of_bytes :: "byte list \<Rightarrow> uint32" where
  "u32_of_bytes bs = ucast (bs ! 0) OR push_bit 8 (ucast (bs ! 1))
     OR push_bit 16 (ucast (bs ! 2)) OR push_bit 24 (ucast (bs ! 3))"

text \<open>Reading four bytes at \<open>p + off\<close>: no value through \<^verbatim>\<open>NULL\<close> or past the array.\<close>

definition load32 :: "ptr \<Rightarrow> nat \<Rightarrow> uint32 option" where
  "load32 p off = (case p of None \<Rightarrow> None
     | Some v \<Rightarrow> if off + 4 \<le> length v then Some (u32_of_bytes (take 4 (drop off v))) else None)"

text \<open>Writing \<open>bs\<close> into the array \<open>buffer\<close> at \<open>off\<close>: no result when it does not fit.\<close>

definition store :: "byte list \<Rightarrow> nat \<Rightarrow> byte list \<Rightarrow> byte list option" where
  "store buffer off bs = (if off + length bs \<le> length buffer
     then Some (take off buffer @ bs @ drop (off + length bs) buffer) else None)"

text \<open>\<^verbatim>\<open>p + off\<close>.\<close>

definition ptr_add :: "ptr \<Rightarrow> nat \<Rightarrow> ptr" where
  "ptr_add p off = map_option (drop off) p"

text \<open>The C string at \<open>p\<close>: the bytes before the first zero byte, if the array has one.\<close>

definition cstring :: "ptr \<Rightarrow> byte list option" where
  "cstring p = (case p of None \<Rightarrow> None
     | Some v \<Rightarrow> if 0 \<in> set v then Some (takeWhile (\<lambda>b. b \<noteq> 0) v) else None)"

text \<open>A string literal of the source as bytes, and with its terminator as a pointer.\<close>

definition bytes_of_string :: "string \<Rightarrow> byte list" where
  "bytes_of_string str = map (\<lambda>c. of_nat (of_char c)) str"

definition literal :: "string \<Rightarrow> ptr" where
  "literal str = Some (bytes_of_string str @ [0])"

text \<open>
  An uninitialised local array of \<open>n\<close> bytes. Its contents are indeterminate in C; they
  are zero here.
\<close>

definition local_array :: "nat \<Rightarrow> byte list" where
  "local_array n = replicate n 0"

text \<open>\<^verbatim>\<open>a - b\<close> on \<^verbatim>\<open>size_t\<close>.\<close>

definition size_t_sub :: "nat \<Rightarrow> nat \<Rightarrow> nat" where
  "size_t_sub a b = nat ((int a - int b) mod 2 ^ 64)"

section \<open>Wire codec\<close>

text \<open>\<^verbatim>\<open>while (v & 3) v++; return v;\<close>\<close>

function RoundUp4 :: "uint32 \<Rightarrow> uint32" where
  "RoundUp4 v = (if v AND 3 \<noteq> 0 then RoundUp4 (v + 1) else v)"
  by pat_completeness auto
termination
proof (relation "measure (\<lambda>v. (3 * unat v) mod 4)")
  show "wf (measure (\<lambda>v::uint32. (3 * unat v) mod 4))" by simp
next
  fix v :: uint32
  assume nz: "v AND 3 \<noteq> 0"
  have "v AND 3 = take_bit 2 v"
    by (simp add: take_bit_eq_mask mask_eq_exp_minus_1)
  then have "v AND 3 = v mod 4" by (simp add: take_bit_eq_mod)
  then have "unat (v AND 3) = unat v mod 4" by (simp add: unat_mod)
  with nz have m: "unat v mod 4 \<noteq> 0" by (metis unat_eq_0)
  have "unat (v + 1) = (unat v + 1) mod 2 ^ 32" by (simp add: unat_word_ariths)
  moreover have "(4::nat) dvd 2 ^ 32" by simp
  ultimately have s: "unat (v + 1) mod 4 = (unat v + 1) mod 4" by (simp only: mod_mod_cancel)
  have step: "(3 * (n + 1)) mod 4 < (3 * n) mod 4" if "n mod 4 \<noteq> 0" for n :: nat
    using that by presburger
  have "(3 * unat (v + 1)) mod 4 = (3 * (unat (v + 1) mod 4)) mod 4"
    by (simp add: mod_mult_right_eq)
  also have "\<dots> = (3 * ((unat v + 1) mod 4)) mod 4" by (simp only: s)
  also have "\<dots> = (3 * (unat v + 1)) mod 4" by (simp add: mod_mult_right_eq)
  finally have "(3 * unat (v + 1)) mod 4 < (3 * unat v) mod 4"
    using step [OF m] by simp
  then show "(v + 1, v) \<in> measure (\<lambda>v. (3 * unat v) mod 4)" by simp
qed

declare RoundUp4.simps [simp del]

definition AppendUint32 :: "byte list \<Rightarrow> nat \<Rightarrow> uint32 \<Rightarrow> (byte list \<times> nat) option" where
  "AppendUint32 buffer current_offset v =
     map_option (\<lambda>b. (b, current_offset + 4)) (store buffer current_offset (bytes_of_u32 v))"

text \<open>
  Returns \<open>(result, buffer, current_offset, world)\<close>. \<open>len\<close> is the source's
  \<^verbatim>\<open>length\<close>; \<^verbatim>\<open>length + 1\<close> is cut to 32 bits where the source passes it as a
  \<^verbatim>\<open>uint32_t\<close>.
\<close>

definition AppendWaylandString ::
  "byte list \<Rightarrow> nat \<Rightarrow> nat \<Rightarrow> ptr \<Rightarrow> world \<Rightarrow> (int \<times> byte list \<times> nat \<times> world) outcome" where
  "AppendWaylandString buffer current_offset buffer_capacity str w =
     defined (cstring str) (\<lambda>text.
       let len = length text;
           padded_length = unat (RoundUp4 (of_nat (len + 1)));
           padding_length = size_t_sub padded_length len;
           remaining = size_t_sub buffer_capacity current_offset
       in if (padded_length + 4) > remaining then
            Ret (0, buffer, current_offset,
              printf ''Appending a string exceeds the %u bytes remaining in a buffer.''
                [ArgU (of_nat remaining)] w)
          else
            defined (AppendUint32 buffer current_offset (of_nat (len + 1))) (\<lambda>(b1, o1).
            defined (store b1 o1 text) (\<lambda>b2.
            let o2 = o1 + len in
            defined (store b2 o2 (replicate padding_length 0)) (\<lambda>b3.
            Ret (1, b3, o2 + padding_length, w)))))"

definition ReadUint32 :: "ptr \<Rightarrow> nat \<Rightarrow> (uint32 \<times> nat) option" where
  "ReadUint32 buffer current_offset =
     map_option (\<lambda>v. (v, current_offset + 4)) (load32 buffer current_offset)"

text \<open>Returns \<open>(current_offset, dst, world)\<close>.\<close>

definition ReadWaylandEvent ::
  "byte list \<Rightarrow> nat \<Rightarrow> world \<Rightarrow> (nat \<times> ParsedWaylandEvent \<times> world) outcome" where
  "ReadWaylandEvent buffer current_offset w =
     defined (ReadUint32 (Some buffer) current_offset) (\<lambda>(dst_object_id, o1).
     defined (ReadUint32 (Some buffer) o1) (\<lambda>(opcode_and_size, o2).
     let dst_opcode = (ucast (opcode_and_size AND 0xffff) :: uint16);
         size_with_header = drop_bit 16 opcode_and_size
     in if size_with_header < 8 then
          Exit 1 (printf ''Got invalid wayland message size: %d'' [ArgD (sint size_with_header)] w)
        else
          let dst_payload_size = (ucast (size_with_header - 8) :: uint16);
              dst_payload = (if dst_payload_size = 0 then None else ptr_add (Some buffer) o2)
          in Ret (o2 + unat (RoundUp4 (ucast dst_payload_size)),
               \<lparr>object_id = dst_object_id, opcode = dst_opcode,
                payload_size = dst_payload_size, payload = dst_payload\<rparr>, w)))"

text \<open>
  \<^verbatim>\<open>memcpy(dst + off, src, n)\<close>: undefined when \<open>src\<close> is \<^verbatim>\<open>NULL\<close> or has fewer than
  \<open>n\<close> bytes, or when the bytes do not fit into \<open>dst\<close>.
\<close>

definition memcpy :: "byte list \<Rightarrow> nat \<Rightarrow> ptr \<Rightarrow> nat \<Rightarrow> byte list option" where
  "memcpy dst off src n = (case src of None \<Rightarrow> None
     | Some v \<Rightarrow> if n \<le> length v then store dst off (take n v) else None)"

text \<open>
  Returns \<open>(buffer, current_offset)\<close>. \<^verbatim>\<open>(src->payload_size + 8) << 16\<close> is computed on
  32 bits, so a size field above \<open>0xffff\<close> loses its high bits.
\<close>

definition WriteWaylandMessage ::
  "byte list \<Rightarrow> nat \<Rightarrow> ParsedWaylandEvent \<Rightarrow> (byte list \<times> nat) option" where
  "WriteWaylandMessage buffer current_offset src =
     (case AppendUint32 buffer current_offset (object_id src) of None \<Rightarrow> None
      | Some (b1, o1) \<Rightarrow>
        let opcode_and_size = push_bit 16 ((ucast (payload_size src) :: uint32) + 8);
            opcode_and_size = opcode_and_size OR ucast (opcode src)
        in (case AppendUint32 b1 o1 opcode_and_size of None \<Rightarrow> None
            | Some (b2, o2) \<Rightarrow>
              if payload_size src > 0 then
                (case memcpy b2 o2 (payload src) (unat (payload_size src)) of None \<Rightarrow> None
                 | Some b3 \<Rightarrow> Some (b3, o2 + unat (RoundUp4 (ucast (payload_size src)))))
              else Some (b2, o2)))"

text \<open>
  Returns \<open>(string, current_offset)\<close>. The empty string literal is an array of one zero
  byte.
\<close>

definition ReadWaylandString :: "ptr \<Rightarrow> nat \<Rightarrow> (ptr \<times> nat) option" where
  "ReadWaylandString buffer current_offset =
     (case ReadUint32 buffer current_offset of None \<Rightarrow> None
      | Some (string_length, o1) \<Rightarrow>
        if string_length = 0 then Some (literal '''', o1)
        else Some (ptr_add buffer o1, o1 + unat (RoundUp4 string_length)))"

section \<open>Object identifiers\<close>

definition NextWaylandID :: "world \<Rightarrow> (uint32 \<times> world) outcome" where
  "NextWaylandID w =
     (let w1 = w\<lparr>next_id := next_id w + 1\<rparr>
      in if next_id w1 > 0xfeffffff then
           Exit 1 (printf ''Error: Allocated too many client-side wayland IDs.'' [] w1)
         else Ret (next_id w1, w1))"

section \<open>Transport\<close>

definition close_fd :: "int \<Rightarrow> world \<Rightarrow> world" where
  "close_fd fd w = w\<lparr>syscalls := syscalls w @ [SysClose fd]\<rparr>"

text \<open>\<^verbatim>\<open>send(fd, buffer, n, flags)\<close>: returns what the system answers, logs the call.\<close>

definition send :: "env \<Rightarrow> int \<Rightarrow> byte list \<Rightarrow> nat \<Rightarrow> world \<Rightarrow> int \<times> world" where
  "send e fd buffer n w =
     (send_ret e (length (syscalls w)) (take n buffer),
      w\<lparr>syscalls := syscalls w @ [SysSend fd (take n buffer)]\<rparr>)"

text \<open>
  All fields zero, as after \<^verbatim>\<open>memset(s, 0, sizeof(*s))\<close>.
\<close>

definition zero_state :: ApplicationState where
  "zero_state = \<lparr>socket_fd = 0, shm_fd = 0, registry_id = 0, shm_id = 0, shm_pool_id = 0,
     frame_buffer_id = 0, compositor_id = 0, xdg_wm_base_id = 0, surface_id = 0,
     xdg_surface_id = 0, xdg_toplevel_id = 0, binding_done = 0, surface_state = NONE,
     width = 0, height = 0, color_channels = 0, stride = 0, image_buffer_size = 0,
     image_buffer = None\<rparr>"

definition CleanupState :: "ApplicationState \<Rightarrow> world \<Rightarrow> ApplicationState \<times> world" where
  "CleanupState s w =
     (let w1 = (if socket_fd s \<ge> 0 then close_fd (socket_fd s) w else w);
          w2 = (if shm_fd s \<ge> 0
                then close_fd (shm_fd s)
                       (w1\<lparr>syscalls := syscalls w1 @ [SysMunmap (unat (image_buffer_size s))]\<rparr>)
                else w1)
      in (zero_state\<lparr>socket_fd := -1, shm_fd := -1\<rparr>, w2))"

text \<open>
  Returns the descriptor or \<open>-1\<close>. \<^verbatim>\<open>sun_path\<close> has 108 bytes, so \<^verbatim>\<open>snprintf\<close> keeps at
  most 106 characters.
\<close>

definition GetWaylandConnection :: "env \<Rightarrow> world \<Rightarrow> int \<times> world" where
  "GetWaylandConnection e w =
     (case xdg_runtime_dir e of
        None \<Rightarrow> (-1, printf ''The XDG_RUNTIME_DIR environment variable was not set.'' [] w)
      | Some xdg_dir \<Rightarrow>
          let display_name = (case wayland_display e of None \<Rightarrow> ''wayland-0'' | Some n \<Rightarrow> n);
              sun_path = take 106 (xdg_dir @ ''/'' @ display_name);
              w1 = printf ''Connecting to display path: %s'' [ArgPath sun_path] w;
              fd = socket_ret e
          in if fd < 0 then (-1, printf ''Error creating socket: %s'' [ArgErrno] w1)
             else if connect_ret e \<noteq> 0 then
               (-1, close_fd fd
                      (printf ''Error connecting to %s: %s'' [ArgPath sun_path, ArgErrno] w1))
             else (fd, w1))"

text \<open>Returns \<open>(result, s, world)\<close>.\<close>

definition GetWaylandDisplayRegistry ::
  "env \<Rightarrow> ApplicationState \<Rightarrow> world \<Rightarrow> (int \<times> ApplicationState \<times> world) outcome" where
  "GetWaylandDisplayRegistry e s w =
     and_then (NextWaylandID w) (\<lambda>(wayland_id, w1).
       let msg = \<lparr>object_id = 1, opcode = 1, payload_size = 4,
                  payload = Some (bytes_of_u32 wayland_id)\<rparr>
       in defined (WriteWaylandMessage (local_array 128) 0 msg) (\<lambda>(buffer, buffer_offset).
            case send e (socket_fd s) buffer buffer_offset w1 of (result, w2) \<Rightarrow>
              if result \<noteq> int buffer_offset then
                Ret (0, s, printf ''Error sending message: %s'' [ArgErrno] w2)
              else Ret (1, s\<lparr>registry_id := wayland_id\<rparr>, w2)))"

text \<open>Returns \<open>(new_id or 0, world)\<close>.\<close>

definition WaylandRegistryBind ::
  "env \<Rightarrow> ApplicationState \<Rightarrow> uint32 \<Rightarrow> ptr \<Rightarrow> uint32 \<Rightarrow> world \<Rightarrow> (uint32 \<times> world) outcome" where
  "WaylandRegistryBind e s name interface version w =
     and_then (NextWaylandID w) (\<lambda>(new_id, w1).
     defined (AppendUint32 (local_array 248) 0 name) (\<lambda>(p1, po1).
     and_then (AppendWaylandString p1 po1 248 interface w1) (\<lambda>(r, p2, po2, w2).
       if r = 0 then
         Ret (0, printf ''Error copying wayland interface name string.'' [] w2)
       else
         defined (AppendUint32 p2 po2 version) (\<lambda>(p3, po3).
         defined (AppendUint32 p3 po3 new_id) (\<lambda>(p4, payload_offset).
         let msg = \<lparr>object_id = registry_id s, opcode = 0,
                    payload_size = of_nat payload_offset, payload = Some p4\<rparr>
         in defined (WriteWaylandMessage (local_array 256) 0 msg) (\<lambda>(buffer, buffer_offset).
              case send e (socket_fd s) buffer buffer_offset w2 of (result, w3) \<Rightarrow>
                if result \<noteq> int buffer_offset then
                  Ret (0, printf ''Error sending registry bind message: %s'' [ArgErrno] w3)
                else Ret (new_id, w3)))))))"

text \<open>
  Returns \<open>(result, s, world)\<close>. The path \<^verbatim>\<open>wl_shm_<t>\<close> is logged as the number \<open>t\<close>.
  \<^verbatim>\<open>MAP_FAILED\<close> is a pointer through which nothing can be read.
\<close>

definition OpenSharedMemoryObject ::
  "env \<Rightarrow> ApplicationState \<Rightarrow> world \<Rightarrow> int \<times> ApplicationState \<times> world" where
  "OpenSharedMemoryObject e s w =
     (let t = (if time_now e \<ge> 0 then time_now e mod 0xffffff
               else - ((- time_now e) mod 0xffffff));
          s1 = s\<lparr>shm_fd := shm_open_ret e\<rparr>
      in if shm_fd s1 \<le> -1 then
           (0, s1, printf ''Error creating %s: %s'' [ArgD t, ArgErrno] w)
         else if shm_unlink_ret e \<noteq> 0 then
           (0, s1, printf ''Error unlinking %s: %s'' [ArgD t, ArgErrno] w)
         else if ftruncate_ret e \<noteq> 0 then
           (0, s1, printf ''Error setting size of %s to %d: %s''
                     [ArgD t, ArgD (sint (image_buffer_size s1)), ArgErrno] w)
         else if \<not> mmap_ok e then
           (0, s1\<lparr>image_buffer := None\<rparr>,
            printf ''Error mapping shared image buffer: %s'' [ArgErrno] w)
         else (1, s1\<lparr>image_buffer := Some (replicate (unat (image_buffer_size s1)) 0)\<rparr>, w))"

definition SignalHandler :: "int \<Rightarrow> world \<Rightarrow> world" where
  "SignalHandler signal_number w =
     (printf ''Received signal %d. Exiting.'' [ArgD signal_number] w)\<lparr>should_exit := 1\<rparr>"

section \<open>Registry and binding\<close>

text \<open>
  Returns the world after printing; no result when one of the reads is through \<^verbatim>\<open>NULL\<close>
  or outside the array, or the message has no terminator in the array.
\<close>

definition PrintErrorEventInfo :: "ParsedWaylandEvent \<Rightarrow> world \<Rightarrow> world option" where
  "PrintErrorEventInfo e w =
     (if payload_size e \<le> 12 then
        Some (printf ''Got an error event, but it was only %d bytes long.''
                [ArgD (uint (payload_size e))] w)
      else
        (case ReadUint32 (payload e) 0 of
           None \<Rightarrow> None
         | Some (obj, o1) \<Rightarrow>
            (case ReadUint32 (payload e) o1 of
               None \<Rightarrow> None
             | Some (error_code, o2) \<Rightarrow>
                (case ReadWaylandString (payload e) o2 of
                   None \<Rightarrow> None
                 | Some (msg, o3) \<Rightarrow>
                    (case cstring msg of
                       None \<Rightarrow> None
                     | Some msg_text \<Rightarrow>
                         Some (printf ''Error detected on object ID %u, code %u: %s''
                                 [ArgU obj, ArgU error_code, ArgS msg_text] w))))))"

text \<open>Returns \<open>(result, s)\<close>.\<close>

definition BindingDone :: "ApplicationState \<Rightarrow> int \<times> ApplicationState" where
  "BindingDone s =
     (if binding_done s \<noteq> 0 then (1, s)
      else if shm_id s \<noteq> 0 \<and> compositor_id s \<noteq> 0 \<and> xdg_wm_base_id s \<noteq> 0 then
        (1, s\<lparr>binding_done := 1\<rparr>)
      else (0, s))"

section \<open>Surface lifecycle\<close>

text \<open>Each of the following returns \<open>(result, s, world)\<close> or \<open>(result, world)\<close>.\<close>

definition CreateWLSurface ::
  "env \<Rightarrow> ApplicationState \<Rightarrow> world \<Rightarrow> (int \<times> ApplicationState \<times> world) outcome" where
  "CreateWLSurface e s w =
     and_then (NextWaylandID w) (\<lambda>(new_id, w1).
       let s1 = s\<lparr>surface_id := new_id\<rparr>;
           msg = \<lparr>object_id = compositor_id s1, opcode = 0, payload_size = 4,
                  payload = Some (bytes_of_u32 (surface_id s1))\<rparr>
       in defined (WriteWaylandMessage (local_array 64) 0 msg) (\<lambda>(buffer, buffer_offset).
            case send e (socket_fd s1) buffer buffer_offset w1 of (result, w2) \<Rightarrow>
              if result \<noteq> int buffer_offset then
                Ret (0, s1, printf ''Error sending create-surface message: %s'' [ArgErrno] w2)
              else Ret (1, s1, printf ''s->surface_id = %d'' [ArgD (sint (surface_id s1))] w2)))"

definition CreateXDGSurface ::
  "env \<Rightarrow> ApplicationState \<Rightarrow> world \<Rightarrow> (int \<times> ApplicationState \<times> world) outcome" where
  "CreateXDGSurface e s w =
     and_then (NextWaylandID w) (\<lambda>(new_id, w1).
       let s1 = s\<lparr>xdg_surface_id := new_id\<rparr>;
           args = bytes_of_u32 (xdg_surface_id s1) @ bytes_of_u32 (surface_id s1);
           msg = \<lparr>object_id = xdg_wm_base_id s1, opcode = 2, payload_size = 8,
                  payload = Some args\<rparr>
       in defined (WriteWaylandMessage (local_array 64) 0 msg) (\<lambda>(buffer, buffer_offset).
            case send e (socket_fd s1) buffer buffer_offset w1 of (result, w2) \<Rightarrow>
              if result \<noteq> int buffer_offset then
                Ret (0, s1, printf ''Error getting xdg surface: %s'' [ArgErrno] w2)
              else Ret (1, s1,
                     printf ''s->xdg_surface_id = %d'' [ArgD (sint (xdg_surface_id s1))] w2)))"

definition GetXDGTopLevel ::
  "env \<Rightarrow> ApplicationState \<Rightarrow> world \<Rightarrow> (int \<times> ApplicationState \<times> world) outcome" where
  "GetXDGTopLevel e s w =
     and_then (NextWaylandID w) (\<lambda>(new_id, w1).
       let s1 = s\<lparr>xdg_toplevel_id := new_id\<rparr>;
           msg = \<lparr>object_id = xdg_surface_id s1, opcode = 1, payload_size = 4,
                  payload = Some (bytes_of_u32 (xdg_toplevel_id s1))\<rparr>
       in defined (WriteWaylandMessage (local_array 64) 0 msg) (\<lambda>(buffer, buffer_offset).
            case send e (socket_fd s1) buffer buffer_offset w1 of (result, w2) \<Rightarrow>
              if result \<noteq> int buffer_offset then
                Ret (0, s1, printf ''Error getting xdg toplevel: %s'' [ArgErrno] w2)
              else Ret (1, s1,
                     printf ''s->xdg_toplevel_id = %d'' [ArgD (sint (xdg_toplevel_id s1))] w2)))"

definition CreateSurface ::
  "env \<Rightarrow> ApplicationState \<Rightarrow> world \<Rightarrow> (int \<times> ApplicationState \<times> world) outcome" where
  "CreateSurface e s w =
     and_then (CreateWLSurface e s w) (\<lambda>(r1, s1, w1).
       if r1 = 0 then Ret (0, s1, w1) else
     and_then (CreateXDGSurface e s1 w1) (\<lambda>(r2, s2, w2).
       if r2 = 0 then Ret (0, s2, w2) else
     and_then (GetXDGTopLevel e s2 w2) (\<lambda>(r3, s3, w3).
       if r3 = 0 then Ret (0, s3, w3) else Ret (1, s3, w3))))"

text \<open>The hex dump of the message is logged as one entry; its layout is not modelled.\<close>

definition PrintHexDump :: "byte list \<Rightarrow> world \<Rightarrow> world" where
  "PrintHexDump bytes w = printf ''PrintHexDump'' [ArgS bytes] w"

definition SendMsgWithShmDescriptor ::
  "env \<Rightarrow> ApplicationState \<Rightarrow> byte list \<Rightarrow> nat \<Rightarrow> world \<Rightarrow> int \<times> world" where
  "SendMsgWithShmDescriptor e s msg_buffer msg_size w =
     (let w1 = printf ''Message sent when creating shm pool:'' [] w;
          w2 = PrintHexDump (take msg_size msg_buffer) w1;
          result = send_ret e (length (syscalls w2)) (take msg_size msg_buffer);
          w3 = w2\<lparr>syscalls := syscalls w2 @
                 [SysSendMsg (socket_fd s) (take msg_size msg_buffer) (shm_fd s)]\<rparr>
      in if result < 0 then (0, printf ''Error sending message with FD: %s'' [ArgErrno] w3)
         else (1, w3))"

definition CreateShmPool ::
  "env \<Rightarrow> ApplicationState \<Rightarrow> world \<Rightarrow> (int \<times> ApplicationState \<times> world) outcome" where
  "CreateShmPool e s w =
     and_then (NextWaylandID w) (\<lambda>(new_pool_id, w1).
       let args = bytes_of_u32 new_pool_id @ bytes_of_u32 (image_buffer_size s);
           msg = \<lparr>object_id = shm_id s, opcode = 0, payload_size = 8, payload = Some args\<rparr>
       in defined (WriteWaylandMessage (local_array 256) 0 msg) (\<lambda>(buffer, buffer_offset).
            case SendMsgWithShmDescriptor e s buffer buffer_offset w1 of (ok, w2) \<Rightarrow>
              if ok = 0 then Ret (0, s, printf ''Error sending shm_pool.create message.'' [] w2)
              else Ret (1, s\<lparr>shm_pool_id := new_pool_id\<rparr>, w2)))"

definition CreateFrameBuffer ::
  "env \<Rightarrow> ApplicationState \<Rightarrow> world \<Rightarrow> (int \<times> ApplicationState \<times> world) outcome" where
  "CreateFrameBuffer e s w =
     and_then (NextWaylandID w) (\<lambda>(buffer_id, w1).
       let args = bytes_of_u32 buffer_id @ bytes_of_u32 0 @ bytes_of_u32 (width s)
                  @ bytes_of_u32 (height s) @ bytes_of_u32 (stride s) @ bytes_of_u32 0;
           msg = \<lparr>object_id = shm_pool_id s, opcode = 0, payload_size = 24,
                  payload = Some args\<rparr>
       in defined (WriteWaylandMessage (local_array 256) 0 msg) (\<lambda>(buffer, buffer_offset).
            case send e (socket_fd s) buffer buffer_offset w1 of (result, w2) \<Rightarrow>
              if result \<noteq> int buffer_offset then
                Ret (0, s, printf ''Error sending create-buffer message: %s'' [ArgErrno] w2)
              else Ret (1, s\<lparr>frame_buffer_id := buffer_id\<rparr>, w2)))"

definition AttachBuffer ::
  "env \<Rightarrow> ApplicationState \<Rightarrow> world \<Rightarrow> (int \<times> world) outcome" where
  "AttachBuffer e s w =
     (let args = bytes_of_u32 (frame_buffer_id s) @ bytes_of_u32 0 @ bytes_of_u32 0;
          msg = \<lparr>object_id = surface_id s, opcode = 1, payload_size = 12, payload = Some args\<rparr>
      in defined (WriteWaylandMessage (local_array 128) 0 msg) (\<lambda>(buffer, buffer_offset).
           case send e (socket_fd s) buffer buffer_offset w of (result, w1) \<Rightarrow>
             if result \<noteq> int buffer_offset then
               Ret (0, printf ''Error sending surface attach message: %s'' [ArgErrno] w1)
             else Ret (1, w1)))"

definition CommitSurface ::
  "env \<Rightarrow> ApplicationState \<Rightarrow> world \<Rightarrow> (int \<times> world) outcome" where
  "CommitSurface e s w =
     (let msg = \<lparr>object_id = surface_id s, opcode = 6, payload_size = 0, payload = None\<rparr>
      in defined (WriteWaylandMessage (local_array 64) 0 msg) (\<lambda>(buffer, buffer_offset).
           case send e (socket_fd s) buffer buffer_offset w of (result, w1) \<Rightarrow>
             if result \<noteq> int buffer_offset then
               Ret (0, printf ''Error sending surface commit message: %s'' [ArgErrno] w1)
             else Ret (1, w1)))"

text \<open>
  The pixel loops of \<^verbatim>\<open>RenderFrame\<close>. The indices are \<^verbatim>\<open>uint32_t\<close>; a write outside the
  mapping has no result.
\<close>

definition PutPixel :: "byte list \<Rightarrow> uint32 \<Rightarrow> byte list option" where
  "PutPixel img pixel_offset =
     Option.bind (store img (unat pixel_offset) [0xaa]) (\<lambda>i1.
     Option.bind (store i1 (unat (pixel_offset + 1)) [0x10]) (\<lambda>i2.
     Option.bind (store i2 (unat (pixel_offset + 2)) [0x55]) (\<lambda>i3.
     store i3 (unat (pixel_offset + 3)) [0xff])))"

definition FillRow :: "uint32 \<Rightarrow> uint32 \<Rightarrow> byte list option \<Rightarrow> byte list option" where
  "FillRow row_width row_offset img =
     fold (\<lambda>x acc. Option.bind acc (\<lambda>i. PutPixel i (row_offset + of_nat x * 4)))
       [0..<unat row_width] img"

definition FillImage :: "ApplicationState \<Rightarrow> byte list option" where
  "FillImage s =
     (case image_buffer s of None \<Rightarrow> None
      | Some img \<Rightarrow>
          Option.bind (store img 0 (replicate (unat (image_buffer_size s)) 0)) (\<lambda>cleared.
            fst (fold (\<lambda>y (acc, row_offset).
                         (FillRow (width s) row_offset acc, row_offset + stride s))
                   [0..<unat (height s)] (Some cleared, 0))))"

definition RenderFrame ::
  "env \<Rightarrow> ApplicationState \<Rightarrow> world \<Rightarrow> (int \<times> ApplicationState \<times> world) outcome" where
  "RenderFrame e s w =
     and_then (if shm_pool_id s = 0 then CreateShmPool e s w else Ret (1, s, w)) (\<lambda>(r1, s1, w1).
       if r1 = 0 then Ret (0, s1, printf ''Error creating shm_pool.'' [] w1) else
     and_then (if frame_buffer_id s1 = 0 then CreateFrameBuffer e s1 w1 else Ret (1, s1, w1))
       (\<lambda>(r2, s2, w2).
       if r2 = 0 then Ret (0, s2, printf ''Error creating frame buffer.'' [] w2) else
     defined (FillImage s2) (\<lambda>img.
       let s3 = s2\<lparr>image_buffer := Some img\<rparr> in
     and_then (AttachBuffer e s3 w2) (\<lambda>(r3, w3).
       if r3 = 0 then Ret (0, s3, printf ''Error attaching buffer to surface.'' [] w3) else
     and_then (CommitSurface e s3 w3) (\<lambda>(r4, w4).
       if r4 = 0 then Ret (0, s3, printf ''Error committing surface.'' [] w4)
       else Ret (1, s3\<lparr>surface_state := SURFACE_ATTACHED\<rparr>, w4))))))"

definition SendXDGPong ::
  "env \<Rightarrow> ApplicationState \<Rightarrow> uint32 \<Rightarrow> world \<Rightarrow> (int \<times> world) outcome" where
  "SendXDGPong e s ping_serial w =
     (let msg = \<lparr>object_id = xdg_wm_base_id s, opcode = 3, payload_size = 4,
                 payload = Some (bytes_of_u32 ping_serial)\<rparr>
      in defined (WriteWaylandMessage (local_array 128) 0 msg) (\<lambda>(buffer, buffer_offset).
           case send e (socket_fd s) buffer buffer_offset w of (result, w1) \<Rightarrow>
             if result \<noteq> int buffer_offset then
               Ret (0, printf ''Error sending XDG WM pong: %s'' [ArgErrno] w1)
             else Ret (1, w1)))"

definition AckXDGSurfaceConfigure ::
  "env \<Rightarrow> ApplicationState \<Rightarrow> uint32 \<Rightarrow> world \<Rightarrow> (int \<times> world) outcome" where
  "AckXDGSurfaceConfigure e s serial w =
     (let msg = \<lparr>object_id = xdg_surface_id s, opcode = 4, payload_size = 4,
                 payload = Some (bytes_of_u32 serial)\<rparr>
      in defined (WriteWaylandMessage (local_array 64) 0 msg) (\<lambda>(buffer, buffer_offset).
           case send e (socket_fd s) buffer buffer_offset w of (result, w1) \<Rightarrow>
             if result \<noteq> int buffer_offset then
               Ret (0, printf ''Error sending xdg_surface.ack_configure: %s'' [ArgErrno] w1)
             else Ret (1, w1)))"

section \<open>Event dispatch\<close>

text \<open>
  Returns \<open>(result, s, world)\<close>. In the registry branch each of the three
  \<^verbatim>\<open>strcmp\<close> blocks either returns 0 or goes on to the next one. In the top-level
  configure branch the test of the payload size only prints: the two reads at \<open>payload\<close>
  and \<open>payload + 4\<close> follow on every path.
\<close>

definition HandleWaylandEvent ::
  "env \<Rightarrow> ApplicationState \<Rightarrow> ParsedWaylandEvent \<Rightarrow> world
     \<Rightarrow> (int \<times> ApplicationState \<times> world) outcome" where
  "HandleWaylandEvent env s e w =
     (if object_id e = registry_id s \<and> opcode e = 0 then
        defined (ReadUint32 (payload e) 0) (\<lambda>(name, o1).
        defined (ReadWaylandString (payload e) o1) (\<lambda>(interface_name, o2).
        defined (ReadUint32 (payload e) o2) (\<lambda>(interface_version, o3).
        defined (cstring interface_name) (\<lambda>iname.
        let w0 = printf ''Found interface %s: name %u, version %u''
                   [ArgS iname, ArgU name, ArgU interface_version] w
        in
        and_then
          (if iname = bytes_of_string ''wl_shm'' then
             and_then (WaylandRegistryBind env s name interface_name interface_version w0)
               (\<lambda>(new_id, w1).
                 let s1 = s\<lparr>shm_id := new_id\<rparr>
                 in if shm_id s1 = 0 then
                      Ret (0, s1, printf ''Error binding wl_shm object.'' [] w1)
                    else Ret (1, s1, printf ''  -> Bound to ID %u'' [ArgU (shm_id s1)] w1))
           else Ret (1 :: int, s, w0))
          (\<lambda>(r1, s1, w1). if r1 = 0 then Ret (0, s1, w1) else
        and_then
          (if iname = bytes_of_string ''xdg_wm_base'' then
             and_then (WaylandRegistryBind env s1 name interface_name interface_version w1)
               (\<lambda>(new_id, w2).
                 let s2 = s1\<lparr>xdg_wm_base_id := new_id\<rparr>
                 in if xdg_wm_base_id s2 = 0 then
                      Ret (0, s2, printf ''Error binding xdg_wm_base object.'' [] w2)
                    else Ret (1, s2,
                           printf ''  -> Bound to ID %u'' [ArgU (xdg_wm_base_id s2)] w2))
           else Ret (1 :: int, s1, w1))
          (\<lambda>(r2, s2, w2). if r2 = 0 then Ret (0, s2, w2) else
        and_then
          (if iname = bytes_of_string ''wl_compositor'' then
             and_then (WaylandRegistryBind env s2 name interface_name interface_version w2)
               (\<lambda>(new_id, w3).
                 let s3 = s2\<lparr>compositor_id := new_id\<rparr>
                 in if compositor_id s3 = 0 then
                      Ret (0, s3, printf ''Error binding wl_compositor object.'' [] w3)
                    else Ret (1, s3,
                           printf ''  -> Bound to ID %u'' [ArgU (compositor_id s3)] w3))
           else Ret (1 :: int, s2, w2))
          (\<lambda>(r3, s3, w3). if r3 = 0 then Ret (0, s3, w3) else Ret (1, s3, w3))))))))
      else if object_id e = 1 \<and> opcode e = 0 then
        defined (PrintErrorEventInfo e w) (\<lambda>w1. Ret (0, s, w1))
      else if object_id e = xdg_wm_base_id s \<and> opcode e = 0 then
        (if payload_size e \<noteq> 4 then
           Ret (0, s, printf ''Incorrect xdg ping payload size: %d''
                        [ArgD (uint (payload_size e))] w)
         else
           defined (load32 (payload e) 0) (\<lambda>ping_serial.
           and_then (SendXDGPong env s ping_serial w) (\<lambda>(r, w1). Ret (r, s, w1))))
      else if object_id e = xdg_surface_id s \<and> opcode e = 0 then
        (if payload_size e \<noteq> 4 then
           Ret (0, s, printf ''Incorrect xdg_surface configure payload size: %d''
                        [ArgD (uint (payload_size e))] w)
         else
           defined (load32 (payload e) 0) (\<lambda>serial.
           and_then (AckXDGSurfaceConfigure env s serial w) (\<lambda>(result, w1).
             if result = 0 then Ret (0, s, w1)
             else Ret (1, s\<lparr>surface_state := ACKED_CONFIGURE\<rparr>, w1))))
      else if object_id e = xdg_toplevel_id s \<and> opcode e = 0 then
        (let w1 = (if payload_size e < 8 then
                     printf ''Invalid payload size for xdg_toplevel configure: %d''
                       [ArgD (uint (payload_size e))] w
                   else w)
         in defined (load32 (payload e) 0) (\<lambda>suggested_width.
            defined (load32 (payload e) 4) (\<lambda>suggested_height.
            Ret (1, s, printf ''Got xdg toplevel configure event. W=%d, H=%d''
                         [ArgD (sint suggested_width), ArgD (sint suggested_height)] w1))))
      else if object_id e = shm_id s \<and> opcode e = 0 then
        (if payload_size e \<noteq> 4 then
           Ret (0, s, printf ''Incorrect wl_shm.format payload size: %d''
                        [ArgD (uint (payload_size e))] w)
         else
           defined (load32 (payload e) 0) (\<lambda>format.
           Ret (1, s, printf ''Supported pixel format: 0x%08x'' [ArgU format] w)))
      else
        Ret (0, s, printf ''Handling opcode %d on object %u is not supported!''
                     [ArgD (uint (opcode e)), ArgU (object_id e)] w))"

text \<open>
  The loop of \<^verbatim>\<open>ProcessWaylandEvents\<close>, from \<open>buffer_offset\<close> on. After a message has been
  read, \<open>buffer_offset\<close> is at least 8, so \<^verbatim>\<open>buffer_offset - 1\<close> does not wrap.
\<close>

function ProcessWaylandEvents_loop ::
  "env \<Rightarrow> ApplicationState \<Rightarrow> byte list \<Rightarrow> nat \<Rightarrow> nat \<Rightarrow> world
     \<Rightarrow> (int \<times> ApplicationState \<times> world) outcome" where
  "ProcessWaylandEvents_loop env s buffer buffer_size buffer_offset w =
     (if buffer_offset < buffer_size then
        (case ReadWaylandEvent buffer buffer_offset w of
           Ret (o1, event, w1) \<Rightarrow>
             if (o1 - 1) > buffer_size then
               Ret (0, s, printf (''A message with a body of %d bytes overflowed the buffer ''
                                  @ ''containing %d bytes.'')
                            [ArgD (uint (payload_size event)), ArgD (int buffer_size)] w1)
             else
               (case HandleWaylandEvent env s event w1 of
                  Ret (r, s1, w2) \<Rightarrow>
                    if r = 0 then
                      Ret (0, s1, printf ''Error handling Wayland op %u on object %u.''
                                    [ArgU (ucast (opcode event)), ArgU (object_id event)] w2)
                    else ProcessWaylandEvents_loop env s1 buffer buffer_size o1 w2
                | Exit c w' \<Rightarrow> Exit c w'
                | Undef \<Rightarrow> Undef
                | Blocked \<Rightarrow> Blocked)
         | Exit c w' \<Rightarrow> Exit c w'
         | Undef \<Rightarrow> Undef
         | Blocked \<Rightarrow> Blocked)
      else Ret (1, s, w))"
  by pat_completeness auto
termination
proof (relation "measure (\<lambda>(env, s, buffer, buffer_size, buffer_offset, w).
                   buffer_size - buffer_offset)")
  show "wf (measure (\<lambda>(env :: env, s :: ApplicationState, buffer :: byte list,
                        buffer_size :: nat, buffer_offset :: nat, w :: world).
                   buffer_size - buffer_offset))"
    by simp
next
  fix env :: env and s s1 :: ApplicationState and buffer :: "byte list"
    and buffer_size buffer_offset o1 :: nat and w w1 w2 :: world
    and x1 :: "nat \<times> ParsedWaylandEvent \<times> world" and x2 :: "ParsedWaylandEvent \<times> world"
    and event :: ParsedWaylandEvent
  assume "buffer_offset < buffer_size"
    and "ReadWaylandEvent buffer buffer_offset w = Ret x1"
    and "(o1, x2) = x1" and "(event, w1) = x2"
  then have "ReadWaylandEvent buffer buffer_offset w = Ret (o1, event, w1)" by simp
  then have "buffer_offset + 8 \<le> o1"
    by (auto simp: ReadWaylandEvent_def defined_def ReadUint32_def Let_def
             split: option.splits if_splits)
  with \<open>buffer_offset < buffer_size\<close>
  show "((env, s1, buffer, buffer_size, o1, w2), (env, s, buffer, buffer_size, buffer_offset, w))
          \<in> measure (\<lambda>(env, s, buffer, buffer_size, buffer_offset, w).
                        buffer_size - buffer_offset)"
    by simp
qed

declare ProcessWaylandEvents_loop.simps [simp del]

definition ProcessWaylandEvents ::
  "env \<Rightarrow> ApplicationState \<Rightarrow> byte list \<Rightarrow> nat \<Rightarrow> world
     \<Rightarrow> (int \<times> ApplicationState \<times> world) outcome" where
  "ProcessWaylandEvents env s buffer buffer_size w =
     ProcessWaylandEvents_loop env s buffer buffer_size 0 w"

section \<open>Event loop and \<^verbatim>\<open>main\<close>\<close>

text \<open>
  What happens between two tests of \<^verbatim>\<open>should_exit\<close>: \<open>SigInt\<close>, the signal arrives and
  its handler runs before the test; or \<^verbatim>\<open>recv\<close> is called and delivers bytes, fails, or
  is interrupted by the signal (the handler runs and \<^verbatim>\<open>recv\<close> returns \<open>-1\<close>, since the
  handler is installed without \<^verbatim>\<open>SA_RESTART\<close>).
\<close>

datatype tick = SigInt | RecvData "byte list" | RecvError | RecvInterrupted

text \<open>
  \<^verbatim>\<open>recv(fd, recv_buffer, 4096, 0)\<close>: returns \<open>(bytes_read, recv_buffer, world)\<close>. At most
  4096 bytes are delivered; the rest of the array keeps what it held.
\<close>

definition recv :: "tick \<Rightarrow> byte list \<Rightarrow> world \<Rightarrow> int \<times> byte list \<times> world" where
  "recv t recv_buffer w =
     (case t of
        RecvData bytes \<Rightarrow>
          (int (length (take 4096 bytes)),
           take 4096 bytes @ drop (length (take 4096 bytes)) recv_buffer, w)
      | RecvInterrupted \<Rightarrow> (-1, recv_buffer, SignalHandler 2 w)
      | _ \<Rightarrow> (-1, recv_buffer, w))"

text \<open>
  One pass through the body of the \<^verbatim>\<open>while\<close> loop of \<^verbatim>\<open>EventLoop\<close>. Returns
  \<open>(go_on, s, recv_buffer, world)\<close>: \<open>go_on = 0\<close> where the source has \<^verbatim>\<open>return 0\<close>.
\<close>

definition EventLoop_body ::
  "env \<Rightarrow> ApplicationState \<Rightarrow> byte list \<Rightarrow> world \<Rightarrow> tick
     \<Rightarrow> (int \<times> ApplicationState \<times> byte list \<times> world) outcome" where
  "EventLoop_body env s recv_buffer w t =
     (case recv t recv_buffer w of (bytes_read, buf, w1) \<Rightarrow>
        if bytes_read < 0 then
          Ret (0, s, buf, printf ''Error receiving wayland message: %s'' [ArgErrno] w1)
        else
          and_then (ProcessWaylandEvents env s buf (nat bytes_read) w1) (\<lambda>(r1, s1, w2).
            if r1 = 0 then Ret (0, s1, buf, printf ''Error handling wayland messages.'' [] w2)
            else
          case BindingDone s1 of (done, s2) \<Rightarrow>
          and_then
            (if done \<noteq> 0 \<and> surface_id s2 = 0 then
               and_then (CreateSurface env s2 w2) (\<lambda>(r2, s3, w3).
                 if r2 = 0 then Ret (0 :: int, s3, printf ''Error creating surface.'' [] w3)
                 else
               and_then (CommitSurface env s3 w3) (\<lambda>(r3, w4).
                 if r3 = 0 then
                   Ret (0, s3, printf ''Error initially committing surface.'' [] w4)
                 else Ret (1, s3, printf ''Created surface.'' [] w4)))
             else Ret (1, s2, w2))
            (\<lambda>(r4, s4, w5). if r4 = 0 then Ret (0, s4, buf, w5) else
          if surface_state s4 = ACKED_CONFIGURE then
            and_then (RenderFrame env s4 w5) (\<lambda>(r5, s5, w6).
              if r5 = 0 then Ret (0, s5, buf, printf ''Error rendering a frame.'' [] w6)
              else Ret (1, s5, buf, w6))
          else Ret (1, s4, buf, w5))))"

text \<open>
  The \<^verbatim>\<open>while (!should_exit)\<close> loop, driven by what arrives. When nothing more arrives the
  process waits in \<^verbatim>\<open>recv\<close> for ever. Returns \<open>(result, s, world)\<close>.
\<close>

fun EventLoop_loop ::
  "env \<Rightarrow> ApplicationState \<Rightarrow> byte list \<Rightarrow> world \<Rightarrow> tick list
     \<Rightarrow> (int \<times> ApplicationState \<times> world) outcome" where
  "EventLoop_loop env s recv_buffer w [] =
     (if should_exit w \<noteq> 0 then Ret (1, s, w) else Blocked)"
| "EventLoop_loop env s recv_buffer w (SigInt # ticks) =
     EventLoop_loop env s recv_buffer (SignalHandler 2 w) ticks"
| "EventLoop_loop env s recv_buffer w (t # ticks) =
     (if should_exit w \<noteq> 0 then Ret (1, s, w)
      else
        (case EventLoop_body env s recv_buffer w t of
           Ret (go_on, s1, buf, w1) \<Rightarrow>
             if go_on = 0 then Ret (0, s1, w1) else EventLoop_loop env s1 buf w1 ticks
         | Exit c w' \<Rightarrow> Exit c w'
         | Undef \<Rightarrow> Undef
         | Blocked \<Rightarrow> Blocked))"

definition EventLoop ::
  "env \<Rightarrow> ApplicationState \<Rightarrow> world \<Rightarrow> tick list
     \<Rightarrow> (int \<times> ApplicationState \<times> world) outcome" where
  "EventLoop env s w ticks = EventLoop_loop env s (replicate 4096 0) w ticks"

text \<open>The static initialisers: \<^verbatim>\<open>next_id = 1\<close>, \<^verbatim>\<open>should_exit = 0\<close>.\<close>

definition initial_world :: world where
  "initial_world = \<lparr>next_id = 1, should_exit = 0, stdout = [], syscalls = []\<rparr>"

text \<open>
  \<^verbatim>\<open>main\<close> up to the call of \<^verbatim>\<open>EventLoop\<close>: either \<^verbatim>\<open>main\<close> has returned with a status
  (\<open>Inl\<close>), or the loop is entered with a state (\<open>Inr\<close>).
\<close>

definition main_setup :: "env \<Rightarrow> ((int \<times> world) + (ApplicationState \<times> world)) outcome" where
  "main_setup env =
     (let w0 = initial_world\<lparr>should_exit := 0\<rparr>;
          state = zero_state\<lparr>socket_fd := -1, shm_fd := -1\<rparr>
      in case GetWaylandConnection env w0 of (fd, w1) \<Rightarrow>
         let state = state\<lparr>socket_fd := fd\<rparr>
         in if socket_fd state \<le> 0 then Ret (Inl (1, w1))
            else
              let state = state\<lparr>width := 256, height := 256\<rparr>;
                  state = state\<lparr>stride := width state * 4\<rparr>;
                  state = state\<lparr>image_buffer_size := stride state * height state\<rparr>
              in case OpenSharedMemoryObject env state w1 of (r1, state, w2) \<Rightarrow>
                 if r1 = 0 then Ret (Inl (1, snd (CleanupState state w2)))
                 else
                   and_then (GetWaylandDisplayRegistry env state w2) (\<lambda>(r2, state, w3).
                     if r2 = 0 then Ret (Inl (1, snd (CleanupState state w3)))
                     else if sigaction_ret env \<noteq> 0 then
                       Ret (Inl (1, snd (CleanupState state
                              (printf ''Error setting SIGINT handler: %s'' [ArgErrno] w3))))
                     else
                       Ret (Inr (state, printf ''Running. Press Ctrl+C to exit.'' [] w3))))"

text \<open>Returns \<open>(exit status, world)\<close>.\<close>

definition main :: "env \<Rightarrow> tick list \<Rightarrow> (int \<times> world) outcome" where
  "main env ticks =
     and_then (main_setup env) (\<lambda>before_loop.
       case before_loop of
         Inl (status, w) \<Rightarrow> Ret (status, w)
       | Inr (state, w4) \<Rightarrow>
           and_then (EventLoop env state w4 ticks) (\<lambda>(result, state, w5).
             let w6 = (if result = 0 then
                         printf ''The event loop exited with an error.'' [] w5
                       else printf ''The event loop ended normally.'' [] w5)
             in Ret (0, snd (CleanupState state w6))))"

text \<open>The exit status of the process, when it ends.\<close>

definition exit_status :: "(int \<times> world) outcome \<Rightarrow> int option" where
  "exit_status r = (case r of Ret (status, w) \<Rightarrow> Some status | Exit status w \<Rightarrow> Some status
     | Undef \<Rightarrow> None | Blocked \<Rightarrow> None)"

section \<open>Notions used to state the properties\<close>

text \<open>\<open>n\<close> successive calls of \<^verbatim>\<open>NextWaylandID\<close>, with the identifiers they return.\<close>

fun NextWaylandID_calls :: "nat \<Rightarrow> world \<Rightarrow> (uint32 list \<times> world) outcome" where
  "NextWaylandID_calls 0 w = Ret ([], w)"
| "NextWaylandID_calls (Suc n) w =
     and_then (NextWaylandID w) (\<lambda>(new_id, w1).
     and_then (NextWaylandID_calls n w1) (\<lambda>(ids, w2). Ret (new_id # ids, w2)))"

text \<open>The payload of a decoded message: the \<open>payload_size\<close> bytes at \<open>payload\<close>.\<close>

definition payload_bytes :: "ParsedWaylandEvent \<Rightarrow> byte list" where
  "payload_bytes e =
     (case payload e of None \<Rightarrow> [] | Some v \<Rightarrow> take (unat (payload_size e)) v)"

text \<open>
  The event matches none of the six tests of \<^verbatim>\<open>HandleWaylandEvent\<close>.
\<close>

definition no_handler :: "ApplicationState \<Rightarrow> ParsedWaylandEvent \<Rightarrow> bool" where
  "no_handler s e \<longleftrightarrow>
     \<not> (object_id e = registry_id s \<and> opcode e = 0)
     \<and> \<not> (object_id e = 1 \<and> opcode e = 0)
     \<and> \<not> (object_id e = xdg_wm_base_id s \<and> opcode e = 0)
     \<and> \<not> (object_id e = xdg_surface_id s \<and> opcode e = 0)
     \<and> \<not> (object_id e = xdg_toplevel_id s \<and> opcode e = 0)
     \<and> \<not> (object_id e = shm_id s \<and> opcode e = 0)"

text \<open>An environment in which every system call succeeds and every send is complete.\<close>

definition all_ok :: env where
  "all_ok = \<lparr>xdg_runtime_dir = Some ''/run/user/1000'', wayland_display = None,
     socket_ret = 3, connect_ret = 0, time_now = 1000, shm_open_ret = 4, shm_unlink_ret = 0,
     ftruncate_ret = 0, mmap_ok = True, sigaction_ret = 0,
     send_ret = (\<lambda>k data. int (length data))\<rparr>"

text \<open>
  The state and the world with which \<^verbatim>\<open>main\<close> enters the event loop in that environment.
\<close>

definition loop_entry_state :: ApplicationState where
  "loop_entry_state = zero_state\<lparr>socket_fd := 3, shm_fd := 4, registry_id := 2, width := 256,
     height := 256, stride := 1024, image_buffer_size := 262144,
     image_buffer := Some (replicate 262144 0)\<rparr>"

definition loop_entry_world :: world where
  "loop_entry_world = \<lparr>next_id = 2, should_exit = 0,
     stdout = [(''Connecting to display path: %s'', [ArgPath ''/run/user/1000/wayland-0'']),
               (''Running. Press Ctrl+C to exit.'', [])],
     syscalls = [SysSend 3 [1, 0, 0, 0, 1, 0, 12, 0, 2, 0, 0, 0]]\<rparr>"

text \<open>A state after the globals have been bound and the surface objects created.\<close>

definition toplevel_state :: ApplicationState where
  "toplevel_state = loop_entry_state\<lparr>shm_id := 3, compositor_id := 4, xdg_wm_base_id := 5,
     binding_done := 1, surface_id := 6, xdg_surface_id := 7, xdg_toplevel_id := 8\<rparr>"

text \<open>
  One change of the state inside the event loop: an event is handled, \<^verbatim>\<open>BindingDone\<close> is
  asked, the surface is created, or a frame is rendered. A run of the loop is a sequence
  of such steps.
\<close>

inductive step :: "env \<Rightarrow> ApplicationState \<Rightarrow> ApplicationState \<Rightarrow> bool" for env :: env where
  step_event: "HandleWaylandEvent env s e w = Ret (r, s', w') \<Longrightarrow> step env s s'"
| step_binding: "BindingDone s = (r, s') \<Longrightarrow> step env s s'"
| step_create: "CreateSurface env s w = Ret (r, s', w') \<Longrightarrow> step env s s'"
| step_render: "RenderFrame env s w = Ret (r, s', w') \<Longrightarrow> step env s s'"

text \<open>
  The same steps as the event loop makes them: \<^verbatim>\<open>EventLoop\<close> calls \<^verbatim>\<open>RenderFrame\<close> only
  when the surface state is \<open>ACKED_CONFIGURE\<close>.
\<close>

inductive loop_step :: "env \<Rightarrow> ApplicationState \<Rightarrow> ApplicationState \<Rightarrow> bool"
  for env :: env where
  loop_event: "HandleWaylandEvent env s e w = Ret (r, s', w') \<Longrightarrow> loop_step env s s'"
| loop_binding: "BindingDone s = (r, s') \<Longrightarrow> loop_step env s s'"
| loop_create: "CreateSurface env s w = Ret (r, s', w') \<Longrightarrow> loop_step env s s'"
| loop_render: "surface_state s = ACKED_CONFIGURE \<Longrightarrow> RenderFrame env s w = Ret (r, s', w')
     \<Longrightarrow> loop_step env s s'"

text \<open>
  The changes of the surface state that one step may make: none, to \<open>ACKED_CONFIGURE\<close>,
  or from \<open>ACKED_CONFIGURE\<close> to \<open>SURFACE_ATTACHED\<close>.
\<close>

definition surface_transition :: "SurfaceState \<Rightarrow> SurfaceState \<Rightarrow> bool" where
  "surface_transition a b \<longleftrightarrow>
     a = b \<or> b = ACKED_CONFIGURE \<or> (a = ACKED_CONFIGURE \<and> b = SURFACE_ATTACHED)"

text \<open>The two fields that record progress are unchanged.\<close>

definition same_progress :: "ApplicationState \<Rightarrow> ApplicationState \<Rightarrow> bool" where
  "same_progress s s' \<longleftrightarrow>
     binding_done s' = binding_done s \<and> surface_state s' = surface_state s"

text \<open>A state after the first frame has been attached and committed.\<close>

definition attached_state :: ApplicationState where
  "attached_state = toplevel_state\<lparr>shm_pool_id := 9, frame_buffer_id := 10,
     surface_state := SURFACE_ATTACHED\<rparr>"

section \<open>Basic facts\<close>

lemma and_then_Ret [simp]: "and_then (Ret x) f = f x"
  by (simp add: and_then_def)

lemma and_then_Exit [simp]: "and_then (Exit c w) f = Exit c w"
  by (simp add: and_then_def)

lemma and_then_Undef [simp]: "and_then Undef f = Undef"
  by (simp add: and_then_def)

lemma and_then_Blocked [simp]: "and_then Blocked f = Blocked"
  by (simp add: and_then_def)

lemma defined_Some [simp]: "defined (Some x) f = f x"
  by (simp add: defined_def)

lemma defined_None [simp]: "defined None f = Undef"
  by (simp add: defined_def)

lemma size_t_sub_le: "b \<le> a \<Longrightarrow> a < 2 ^ 64 \<Longrightarrow> size_t_sub a b = a - b"
  by (simp add: size_t_sub_def nat_diff_distrib' of_nat_diff)

lemma RoundUp4_1: "RoundUp4 1 = 4"
  by (simp add: RoundUp4.simps)

lemma cstring_empty: "cstring (Some (0 # rest)) = Some []"
  by (simp add: cstring_def)

lemma length_bytes_of_u32: "length (bytes_of_u32 v) = 4"
  by (simp add: bytes_of_u32_def)

lemma store_Some:
  "off + length bs \<le> length buffer \<Longrightarrow>
   store buffer off bs = Some (take off buffer @ bs @ drop (off + length bs) buffer)"
  by (simp add: store_def)

lemma length_store: "store buffer off bs = Some b \<Longrightarrow> length b = length buffer"
  by (auto simp: store_def split: if_splits)

lemma store_after:
  assumes "off + length xs + length ys \<le> length buffer"
  shows "store (take off buffer @ xs @ drop (off + length xs) buffer) (off + length xs) ys =
     Some (take off buffer @ (xs @ ys) @ drop (off + length xs + length ys) buffer)"
proof -
  let ?b = "take off buffer @ xs @ drop (off + length xs) buffer"
  have len: "length ?b = length buffer" using assms by simp
  have t: "take (off + length xs) ?b = take off buffer @ xs" using assms by simp
  have d: "drop (off + length xs + length ys) ?b = drop (off + length xs + length ys) buffer"
    using assms by (simp add: add.commute)
  have "store ?b (off + length xs) ys =
      Some (take (off + length xs) ?b @ ys @ drop (off + length xs + length ys) ?b)"
    using assms len by (simp only: store_Some)
  then show ?thesis by (simp only: t d append_assoc)
qed

lemma store_after4:
  assumes "off + 4 + length ys \<le> length buffer" and "length xs = 4"
  shows "store (take off buffer @ xs @ drop (off + 4) buffer) (off + 4) ys =
     Some (take off buffer @ xs @ ys @ drop (off + 4 + length ys) buffer)"
  using store_after [of off xs ys buffer] assms by simp

lemma AppendUint32_Some:
  "off + 4 \<le> length buffer \<Longrightarrow>
   AppendUint32 buffer off v =
     Some (take off buffer @ bytes_of_u32 v @ drop (off + 4) buffer, off + 4)"
  by (simp add: AppendUint32_def store_Some length_bytes_of_u32)

section \<open>Encoding the empty string\<close>

lemma AppendWaylandString_empty_bytes:
  assumes "current_offset + 8 \<le> length buffer" and "current_offset + 8 \<le> buffer_capacity"
    and "buffer_capacity < 2 ^ 64"
  shows "AppendWaylandString buffer current_offset buffer_capacity (Some (0 # rest)) w =
    Ret (1, take current_offset buffer @ [1, 0, 0, 0, 0, 0, 0, 0]
              @ drop (current_offset + 8) buffer,
         current_offset + 8, w)"
proof -
  have rem: "size_t_sub buffer_capacity current_offset = buffer_capacity - current_offset"
    using assms by (simp add: size_t_sub_le)
  have pad: "size_t_sub 4 0 = 4" by (simp add: size_t_sub_def)
  let ?b1 = "take current_offset buffer @ bytes_of_u32 1 @ drop (current_offset + 4) buffer"
  have b1: "AppendUint32 buffer current_offset 1 = Some (?b1, current_offset + 4)"
    using assms by (simp add: AppendUint32_Some)
  have b2: "store ?b1 (current_offset + 4) [] = Some ?b1"
    using assms store_after4 [of current_offset "[]" buffer "bytes_of_u32 1"]
    by (simp add: length_bytes_of_u32)
  have b3: "store ?b1 (current_offset + 4) (replicate 4 0) =
      Some (take current_offset buffer @ bytes_of_u32 1 @ replicate 4 0
            @ drop (current_offset + 4 + 4) buffer)"
    using assms store_after4 [of current_offset "replicate 4 0" buffer "bytes_of_u32 1"]
    by (simp add: length_bytes_of_u32)
  have "AppendWaylandString buffer current_offset buffer_capacity (Some (0 # rest)) w =
      Ret (1, take current_offset buffer @ bytes_of_u32 1 @ replicate 4 0
            @ drop (current_offset + 4 + 4) buffer, current_offset + 4 + 4, w)"
    using assms
    by (simp add: AppendWaylandString_def cstring_empty RoundUp4_1 rem pad b1 b2 b3 Let_def)
  moreover have "bytes_of_u32 1 = [1, 0, 0, 0]"
    by (simp add: bytes_of_u32_def)
  moreover have "replicate 4 (0::byte) = [0, 0, 0, 0]"
    by (simp add: eval_nat_numeral)
  ultimately show ?thesis by (simp add: add.commute)
qed

text \<open>
  Claim C3, as stated: encoding the empty string with \<^verbatim>\<open>AppendWaylandString\<close> produces
  exactly 4 bytes, a zero length field with no body and no padding. The code does
  something else. On an 8-byte array filled with \<open>0xaa\<close>, it writes the length field 1 (the
  terminator is counted) and four zero bytes, and moves the offset to 8; the result the
  claim describes, four zero bytes and the offset at 4, is not produced.
\<close>

theorem AppendWaylandString_empty_counterexample:
  "AppendWaylandString (replicate 8 0xaa) 0 8 (literal '''') initial_world =
     Ret (1, [1, 0, 0, 0, 0, 0, 0, 0], 8, initial_world)
   \<and> AppendWaylandString (replicate 8 0xaa) 0 8 (literal '''') initial_world \<noteq>
     Ret (1, [0, 0, 0, 0, 0xaa, 0xaa, 0xaa, 0xaa], 4, initial_world)"
proof -
  have "AppendWaylandString (replicate 8 0xaa) 0 8 (Some (0 # [])) initial_world =
     Ret (1, take 0 (replicate 8 0xaa) @ [1, 0, 0, 0, 0, 0, 0, 0]
               @ drop (0 + 8) (replicate 8 0xaa),
          0 + 8, initial_world)"
    by (rule AppendWaylandString_empty_bytes) simp_all
  then show ?thesis by (simp add: literal_def bytes_of_string_def)
qed

text \<open>
  Claim C3, amended: encoding the empty string (any C string whose first byte is the
  terminator) into a buffer with at least 8 bytes of room writes exactly 8 bytes at the
  current offset: the length field 1, then four zero bytes (the terminator and three
  bytes of padding); the offset advances by 8, the rest of the buffer is unchanged and
  the call returns 1.
\<close>

theorem AppendWaylandString_empty:
  assumes "current_offset + 8 \<le> length buffer" and "current_offset + 8 \<le> buffer_capacity"
    and "buffer_capacity < 2 ^ 64"
  shows "AppendWaylandString buffer current_offset buffer_capacity (Some (0 # rest)) w =
    Ret (1, take current_offset buffer @ [1, 0, 0, 0, 0, 0, 0, 0]
              @ drop (current_offset + 8) buffer,
         current_offset + 8, w)"
  using assms by (rule AppendWaylandString_empty_bytes)

theorem AppendWaylandString_empty_witness:
  "(0::nat) + 8 \<le> length (replicate 8 (0xaa :: byte)) \<and> (0::nat) + 8 \<le> 8 \<and> (8::nat) < 2 ^ 64
   \<and> AppendWaylandString (replicate 8 0xaa) 0 8 (Some [0]) initial_world =
       Ret (1, [1, 0, 0, 0, 0, 0, 0, 0], 8, initial_world)"
  using AppendWaylandString_empty [of 0 "replicate 8 0xaa" 8 "[]" initial_world] by simp

section \<open>The identifier allocator\<close>

lemma NextWaylandID_ok:
  assumes "unat (next_id w) < 0xfeffffff"
  shows "NextWaylandID w = Ret (next_id w + 1, w\<lparr>next_id := next_id w + 1\<rparr>)
   \<and> unat (next_id w + 1) = unat (next_id w) + 1"
proof -
  from assms have u: "unat (next_id w + 1) = unat (next_id w) + 1"
    by (simp add: unat_word_ariths)
  with assms have "unat (next_id w + 1) \<le> unat (0xfeffffff :: uint32)" by simp
  then have "\<not> next_id w + 1 > 0xfeffffff"
    by (simp add: word_le_nat_alt not_less del: unat_bintrunc)
  with u show ?thesis by (simp add: NextWaylandID_def Let_def)
qed

lemma NextWaylandID_exit:
  assumes "unat (next_id w) = 0xfeffffff"
  shows "NextWaylandID w =
    Exit 1 (printf ''Error: Allocated too many client-side wayland IDs.'' []
              (w\<lparr>next_id := 0xff000000\<rparr>))"
proof -
  have "next_id w = of_nat (unat (next_id w))" by simp
  then have "next_id w = of_nat 4278190079" by (simp only: assms)
  then have "next_id w = 0xfeffffff" by simp
  then show ?thesis by (simp add: NextWaylandID_def Let_def)
qed

lemma NextWaylandID_calls_ok:
  "unat (next_id w) + n \<le> 0xfeffffff \<Longrightarrow>
   \<exists>ids w'. NextWaylandID_calls n w = Ret (ids, w')
     \<and> map unat ids = [unat (next_id w) + 1 ..< unat (next_id w) + 1 + n]
     \<and> unat (next_id w') = unat (next_id w) + n"
proof (induction n arbitrary: w)
  case 0
  then show ?case by simp
next
  case (Suc n)
  then have lt: "unat (next_id w) < 0xfeffffff" by simp
  let ?w1 = "w\<lparr>next_id := next_id w + 1\<rparr>"
  from NextWaylandID_ok [OF lt]
  have call: "NextWaylandID w = Ret (next_id w + 1, ?w1)"
    and u: "unat (next_id w + 1) = unat (next_id w) + 1" by simp_all
  from Suc.prems u have "unat (next_id ?w1) + n \<le> 0xfeffffff" by simp
  from Suc.IH [OF this] obtain ids w' where
    rest: "NextWaylandID_calls n ?w1 = Ret (ids, w')"
    and ids: "map unat ids = [unat (next_id ?w1) + 1 ..< unat (next_id ?w1) + 1 + n]"
    and nxt: "unat (next_id w') = unat (next_id ?w1) + n" by blast
  have "NextWaylandID_calls (Suc n) w = Ret ((next_id w + 1) # ids, w')"
    by (simp add: call rest)
  moreover have "map unat ((next_id w + 1) # ids) =
      [unat (next_id w) + 1 ..< unat (next_id w) + 1 + Suc n]"
    using ids u by (simp add: upt_rec [of "Suc (unat (next_id w))"])
  moreover have "unat (next_id w') = unat (next_id w) + Suc n" using nxt u by simp
  ultimately show ?case by blast
qed

lemma NextWaylandID_calls_exit:
  "unat (next_id w) \<le> 0xfeffffff \<Longrightarrow> unat (next_id w) + n > 0xfeffffff \<Longrightarrow>
   \<exists>w'. NextWaylandID_calls n w = Exit 1 w'"
proof (induction n arbitrary: w)
  case 0
  then show ?case by simp
next
  case (Suc n)
  show ?case
  proof (cases "unat (next_id w) = 0xfeffffff")
    case True
    then show ?thesis by (simp add: NextWaylandID_exit)
  next
    case False
    with Suc.prems have lt: "unat (next_id w) < 0xfeffffff" by simp
    let ?w1 = "w\<lparr>next_id := next_id w + 1\<rparr>"
    from NextWaylandID_ok [OF lt]
    have call: "NextWaylandID w = Ret (next_id w + 1, ?w1)"
      and u: "unat (next_id w + 1) = unat (next_id w) + 1" by simp_all
    from Suc.prems u lt have "unat (next_id ?w1) \<le> 0xfeffffff"
      and "unat (next_id ?w1) + n > 0xfeffffff" by simp_all
    from Suc.IH [OF this] obtain w' where "NextWaylandID_calls n ?w1 = Exit 1 w'" by blast
    then show ?thesis by (simp add: call)
  qed
qed

text \<open>
  Claim C4, as stated: no identifier returned by \<^verbatim>\<open>NextWaylandID\<close> is ever
  \<open>\<ge> 0xfeffffff\<close>. The code's test is \<^verbatim>\<open>next_id > 0xfeffffff\<close>, so \<open>0xfeffffff\<close> itself is
  returned: by the call made when the counter holds \<open>0xfefffffe\<close>, which is the state
  after \<open>0xfefffffd\<close> calls.
\<close>

theorem NextWaylandID_ceiling_counterexample:
  "NextWaylandID (initial_world\<lparr>next_id := 0xfefffffe\<rparr>) =
     Ret (0xfeffffff, initial_world\<lparr>next_id := 0xfeffffff\<rparr>)
   \<and> (0xfeffffff :: uint32) \<ge> 0xfeffffff"
  by (simp add: NextWaylandID_def Let_def)

text \<open>
  Claim C4, amended: from the start of the program, \<open>n\<close> successive calls of
  \<^verbatim>\<open>NextWaylandID\<close> with \<open>n \<le> 0xfefffffe\<close> all return, and they return \<open>2, 3, \<dots>, n + 1\<close>:
  strictly increasing values starting at 2, none above \<open>0xfeffffff\<close> (the identifiers
  above \<open>0xfeffffff\<close> are the server's). With more calls than that the process ends by
  \<^verbatim>\<open>exit(1)\<close>: the counter never wraps around.
\<close>

theorem NextWaylandID_sequence:
  "(n \<le> 0xfefffffe \<longrightarrow>
      (\<exists>ids w'. NextWaylandID_calls n initial_world = Ret (ids, w')
         \<and> map unat ids = [2 ..< n + 2] \<and> (\<forall>i \<in> set ids. i \<le> 0xfeffffff)))
   \<and> (n > 0xfefffffe \<longrightarrow> (\<exists>w'. NextWaylandID_calls n initial_world = Exit 1 w'))"
proof (intro conjI impI)
  assume n: "n \<le> 0xfefffffe"
  have one: "unat (next_id initial_world) = 1" by (simp add: initial_world_def)
  with n have "unat (next_id initial_world) + n \<le> 0xfeffffff" by simp
  from NextWaylandID_calls_ok [OF this] one obtain ids w' where
    r: "NextWaylandID_calls n initial_world = Ret (ids, w')" and m: "map unat ids = [2 ..< n + 2]"
    by (auto simp: numeral_2_eq_2)
  have "\<forall>i \<in> set ids. i \<le> 0xfeffffff"
  proof
    fix i assume "i \<in> set ids"
    then have "unat i \<in> set (map unat ids)" by simp
    then have "unat i \<in> set [2 ..< n + 2]" by (simp only: m)
    then have "unat i < n + 2" by (simp only: set_upt atLeastLessThan_iff)
    with n have "unat i \<le> unat (0xfeffffff :: uint32)" by simp
    then show "i \<le> 0xfeffffff" by (simp only: word_le_nat_alt)
  qed
  with r m show "\<exists>ids w'. NextWaylandID_calls n initial_world = Ret (ids, w')
      \<and> map unat ids = [2 ..< n + 2] \<and> (\<forall>i \<in> set ids. i \<le> 0xfeffffff)" by blast
next
  assume n: "n > 0xfefffffe"
  have one: "unat (next_id initial_world) = 1" by (simp add: initial_world_def)
  with n show "\<exists>w'. NextWaylandID_calls n initial_world = Exit 1 w'"
    by (intro NextWaylandID_calls_exit) simp_all
qed

theorem NextWaylandID_sequence_witness:
  "Suc (Suc (Suc 0)) \<le> 0xfefffffe \<and>
   NextWaylandID_calls (Suc (Suc (Suc 0))) initial_world =
     Ret ([2, 3, 4], initial_world\<lparr>next_id := 4\<rparr>)"
  using NextWaylandID_sequence [of "Suc (Suc (Suc 0))"]
  by (simp add: NextWaylandID_def initial_world_def Let_def)

section \<open>Message round trip\<close>


lemma u32_bytes_roundtrip: "u32_of_bytes (bytes_of_u32 v) = v"
proof (rule bit_word_eqI)
  fix n assume "n < LENGTH(32)"
  then consider "n < 8" | "8 \<le> n" "n < 16" | "16 \<le> n" "n < 24" | "24 \<le> n" "n < 32"
    by fastforce
  then show "bit (u32_of_bytes (bytes_of_u32 v)) n = bit v n"
    by cases (auto simp add: u32_of_bytes_def bytes_of_u32_def bit_simps)
qed

lemma mask16: "(0xffff :: uint32) = mask 16"
  by (simp add: mask_eq_exp_minus_1)

lemma header_opcode:
  "(ucast ((push_bit 16 (x :: uint32) OR ucast (c :: uint16)) AND 0xffff) :: uint16) = c"
  apply (simp only: mask16)
  apply (rule bit_word_eqI)
  apply (auto simp add: bit_simps dest: bit_imp_le_length)
  done

lemma header_size:
  "drop_bit 16 (push_bit 16 (x :: uint32) OR ucast (c :: uint16)) = take_bit 16 x"
  apply (rule bit_word_eqI)
  apply (auto simp add: bit_simps dest: bit_imp_le_length)
  done

lemma size_field:
  fixes n :: uint16
  assumes "unat n < 2 ^ 16 - 8"
  shows "take_bit 16 ((ucast n :: uint32) + 8) = ucast n + 8"
    and "\<not> ((ucast n :: uint32) + 8 < 8)"
    and "(ucast (((ucast n :: uint32) + 8) - 8) :: uint16) = n"
proof -
  have "unat n < 2 ^ 32" using assms by simp
  then have "take_bit 32 (unat n) = unat n" by (simp only: take_bit_nat_eq_self)
  then have "unat (ucast n :: uint32) = unat n"
    by (simp add: unsigned_ucast_eq)
  then have u: "unat ((ucast n :: uint32) + 8) = unat n + 8"
    using assms by (simp add: unat_word_ariths)
  then have "unat ((ucast n :: uint32) + 8) < 2 ^ 16" using assms by simp
  then have "take_bit 16 (unat ((ucast n :: uint32) + 8)) = unat ((ucast n :: uint32) + 8)"
    by (rule take_bit_nat_eq_self)
  then have "unat (take_bit 16 ((ucast n :: uint32) + 8)) = unat ((ucast n :: uint32) + 8)"
    by (simp add: unsigned_take_bit_eq)
  then show "take_bit 16 ((ucast n :: uint32) + 8) = ucast n + 8"
    by (simp only: word_unat_eq_iff)
  from u show "\<not> ((ucast n :: uint32) + 8 < 8)"
    by (simp add: word_less_nat_alt)
  show "(ucast (((ucast n :: uint32) + 8) - 8) :: uint16) = n"
    by (simp add: ucast_down_ucast_id is_down)
qed

lemma RoundUp4_0: "RoundUp4 0 = 0"
  by (simp add: RoundUp4.simps)

lemma load32_at0:
  "length pre = off \<Longrightarrow> length xs = 4 \<Longrightarrow>
   load32 (Some (pre @ xs @ rest)) off = Some (u32_of_bytes xs)"
  by (simp add: load32_def)

lemma load32_at4:
  "length pre = off \<Longrightarrow> length xs = 4 \<Longrightarrow> length ys = 4 \<Longrightarrow>
   load32 (Some (pre @ xs @ ys @ rest)) (off + 4) = Some (u32_of_bytes ys)"
  by (simp add: load32_def)

lemma WriteWaylandMessage_bytes:
  assumes cap: "off + 8 + length bs \<le> length buffer" and n: "length bs < 2 ^ 16"
  shows "WriteWaylandMessage buffer off
           \<lparr>object_id = oid, opcode = opc, payload_size = of_nat (length bs), payload = Some bs\<rparr> =
         Some (take off buffer @ bytes_of_u32 oid
                 @ bytes_of_u32 (push_bit 16 (ucast (of_nat (length bs) :: uint16) + 8) OR ucast opc)
                 @ bs @ drop (off + 8 + length bs) buffer,
               off + 8 + unat (RoundUp4 (ucast (of_nat (length bs) :: uint16))))"
proof -
  let ?n = "of_nat (length bs) :: uint16"
  let ?W = "push_bit 16 ((ucast ?n :: uint32) + 8) OR ucast opc"
  let ?H1 = "bytes_of_u32 oid"
  let ?H2 = "bytes_of_u32 ?W"
  let ?b1 = "take off buffer @ ?H1 @ drop (off + 4) buffer"
  let ?b2 = "take off buffer @ ?H1 @ ?H2 @ drop (off + 4 + length ?H2) buffer"
  have un: "unat ?n = length bs" using n by (simp add: unat_of_nat)
  have s1: "AppendUint32 buffer off oid = Some (?b1, off + 4)"
    using cap by (simp add: AppendUint32_Some)
  have "store ?b1 (off + 4) ?H2 = Some ?b2"
    using cap by (intro store_after4) (simp_all add: length_bytes_of_u32)
  then have s2: "AppendUint32 ?b1 (off + 4) ?W = Some (?b2, off + 4 + 4)"
    by (simp add: AppendUint32_def)
  have b2: "?b2 = take off buffer @ (?H1 @ ?H2) @ drop (off + length (?H1 @ ?H2)) buffer"
    by (simp add: length_bytes_of_u32 add.commute)
  have "store (take off buffer @ (?H1 @ ?H2) @ drop (off + length (?H1 @ ?H2)) buffer)
          (off + length (?H1 @ ?H2)) bs =
        Some (take off buffer @ ((?H1 @ ?H2) @ bs)
              @ drop (off + length (?H1 @ ?H2) + length bs) buffer)"
    using cap by (intro store_after) (simp add: length_bytes_of_u32)
  then have s3: "store ?b2 (off + 4 + 4) bs =
      Some (take off buffer @ ?H1 @ ?H2 @ bs @ drop (off + 8 + length bs) buffer)"
    by (simp add: length_bytes_of_u32 add.commute)
  show ?thesis
  proof (cases "bs = []")
    case True
    then have "?n = 0" by simp
    with True show ?thesis
      using s1 s2
      by (simp add: WriteWaylandMessage_def RoundUp4_0 length_bytes_of_u32 add.commute)
  next
    case False
    then have "unat ?n \<noteq> 0" using un by simp
    then have pos: "?n > 0" by (simp add: word_greater_zero_iff unat_eq_0)
    have "memcpy ?b2 (off + 4 + 4) (Some bs) (unat ?n) =
        Some (take off buffer @ ?H1 @ ?H2 @ bs @ drop (off + 8 + length bs) buffer)"
      using s3 by (simp add: memcpy_def un)
    with pos show ?thesis
      using s1 s2 by (simp add: WriteWaylandMessage_def Let_def)
  qed
qed

lemma ReadWaylandEvent_eval:
  assumes "ReadUint32 (Some b) off = Some (oid, o1)" and "ReadUint32 (Some b) o1 = Some (W, o2)"
    and "\<not> drop_bit 16 W < 8"
  shows "ReadWaylandEvent b off w =
     Ret (o2 + unat (RoundUp4 (ucast (ucast (drop_bit 16 W - 8) :: uint16))),
          \<lparr>object_id = oid, opcode = ucast (W AND 0xffff),
           payload_size = ucast (drop_bit 16 W - 8),
           payload = (if (ucast (drop_bit 16 W - 8) :: uint16) = 0 then None
                      else ptr_add (Some b) o2)\<rparr>, w)"
  using assms by (simp add: ReadWaylandEvent_def Let_def)

text \<open>
  Claim C5: for every message \<open>(object_id, opcode, payload)\<close> whose payload is shorter than
  \<open>2 ^ 16 - 8\<close> bytes, and every buffer with room for it, \<^verbatim>\<open>WriteWaylandMessage\<close> succeeds
  and \<^verbatim>\<open>ReadWaylandEvent\<close>, applied where the message was written, returns the same
  object id, opcode, payload length and payload bytes, and stops at the offset where the
  writer stopped.
\<close>

theorem WriteWaylandMessage_ReadWaylandEvent_roundtrip:
  assumes n: "length bs < 2 ^ 16 - 8" and cap: "current_offset + 8 + length bs \<le> length buffer"
  shows "\<exists>buffer' end_offset e.
     WriteWaylandMessage buffer current_offset
       \<lparr>object_id = oid, opcode = opc, payload_size = of_nat (length bs), payload = Some bs\<rparr>
       = Some (buffer', end_offset)
     \<and> ReadWaylandEvent buffer' current_offset w = Ret (end_offset, e, w)
     \<and> object_id e = oid \<and> opcode e = opc \<and> unat (payload_size e) = length bs
     \<and> payload_bytes e = bs"
proof -
  let ?n = "of_nat (length bs) :: uint16"
  let ?W = "push_bit 16 ((ucast ?n :: uint32) + 8) OR ucast opc"
  let ?H1 = "bytes_of_u32 oid"
  let ?H2 = "bytes_of_u32 ?W"
  let ?rest = "bs @ drop (current_offset + 8 + length bs) buffer"
  let ?b = "take current_offset buffer @ ?H1 @ ?H2 @ ?rest"
  let ?fin = "current_offset + 8 + unat (RoundUp4 (ucast ?n))"
  have n16: "length bs < 2 ^ 16" using n by simp
  have un: "unat ?n = length bs" using n16 by (simp add: unat_of_nat)
  then have un8: "unat ?n < 2 ^ 16 - 8" using n by simp
  have wr: "WriteWaylandMessage buffer current_offset
       \<lparr>object_id = oid, opcode = opc, payload_size = ?n, payload = Some bs\<rparr> = Some (?b, ?fin)"
    using WriteWaylandMessage_bytes [OF cap n16] by simp
  have lpre: "length (take current_offset buffer) = current_offset" using cap by simp
  have r1: "ReadUint32 (Some ?b) current_offset = Some (oid, current_offset + 4)"
    using load32_at0 [OF lpre, of ?H1 "?H2 @ ?rest"]
    by (simp add: ReadUint32_def length_bytes_of_u32 u32_bytes_roundtrip)
  have r2: "ReadUint32 (Some ?b) (current_offset + 4) = Some (?W, current_offset + 4 + 4)"
    using load32_at4 [OF lpre, of ?H1 ?H2 ?rest]
    by (simp add: ReadUint32_def length_bytes_of_u32 u32_bytes_roundtrip)
  have opc: "(ucast (?W AND 0xffff) :: uint16) = opc" by (rule header_opcode)
  have "drop_bit 16 ?W = take_bit 16 ((ucast ?n :: uint32) + 8)" by (rule header_size)
  then have sz: "drop_bit 16 ?W = ucast ?n + 8"
    by (simp only: size_field(1) [OF un8])
  have ge: "\<not> ((ucast ?n :: uint32) + 8 < 8)" by (rule size_field(2) [OF un8])
  have inv: "(ucast (((ucast ?n :: uint32) + 8) - 8) :: uint16) = ?n"
    by (rule size_field(3) [OF un8])
  have dr: "drop (current_offset + 4 + 4) ?b = ?rest"
    using lpre by (simp add: length_bytes_of_u32)
  let ?e = "\<lparr>object_id = oid, opcode = opc, payload_size = ?n,
             payload = (if ?n = 0 then None else Some ?rest)\<rparr>"
  have pa: "ptr_add (Some ?b) (current_offset + 4 + 4) = Some ?rest"
    by (simp only: ptr_add_def option.map dr)
  have ge': "\<not> drop_bit 16 ?W < 8" unfolding sz by (rule ge)
  have "ReadWaylandEvent ?b current_offset w =
     Ret (current_offset + 4 + 4 + unat (RoundUp4 (ucast (ucast (drop_bit 16 ?W - 8) :: uint16))),
          \<lparr>object_id = oid, opcode = ucast (?W AND 0xffff),
           payload_size = ucast (drop_bit 16 ?W - 8),
           payload = (if (ucast (drop_bit 16 ?W - 8) :: uint16) = 0 then None
                      else ptr_add (Some ?b) (current_offset + 4 + 4))\<rparr>, w)"
    using r1 r2 ge' by (rule ReadWaylandEvent_eval)
  then have "ReadWaylandEvent ?b current_offset w =
     Ret (current_offset + 4 + 4 + unat (RoundUp4 (ucast ?n)), ?e, w)"
    by (simp only: sz opc inv pa)
  then have rd: "ReadWaylandEvent ?b current_offset w = Ret (?fin, ?e, w)"
    by simp
  have pb: "payload_bytes ?e = bs"
    using un by (auto simp: payload_bytes_def)
  from wr rd pb un show ?thesis by auto
qed

theorem WriteWaylandMessage_ReadWaylandEvent_roundtrip_witness:
  "length [1, 2, 3, 4, 5 :: byte] < 2 ^ 16 - 8
   \<and> 0 + 8 + length [1, 2, 3, 4, 5 :: byte] \<le> length (replicate 16 (0xaa :: byte))
   \<and> (\<exists>buffer' end_offset e.
         WriteWaylandMessage (replicate 16 0xaa) 0
           \<lparr>object_id = 7, opcode = 3, payload_size = of_nat (length [1, 2, 3, 4, 5 :: byte]),
            payload = Some [1, 2, 3, 4, 5]\<rparr> = Some (buffer', end_offset)
         \<and> ReadWaylandEvent buffer' 0 initial_world = Ret (end_offset, e, initial_world)
         \<and> object_id e = 7 \<and> opcode e = 3 \<and> unat (payload_size e) = length [1, 2, 3, 4, 5 :: byte]
         \<and> payload_bytes e = [1, 2, 3, 4, 5])"
  using WriteWaylandMessage_ReadWaylandEvent_roundtrip
    [of "[1, 2, 3, 4, 5]" 0 "replicate 16 0xaa" 7 3 initial_world]
  by simp


section \<open>Dispatch and the loops\<close>

lemma HandleWaylandEvent_unsupported:
  "no_handler s e \<Longrightarrow>
   HandleWaylandEvent env s e w =
     Ret (0, s, printf ''Handling opcode %d on object %u is not supported!''
                  [ArgD (uint (opcode e)), ArgU (object_id e)] w)"
proof (cases "opcode e = 0")
  case True
  assume "no_handler s e"
  with True have "object_id e \<noteq> registry_id s" "object_id e \<noteq> 1"
    "object_id e \<noteq> xdg_wm_base_id s" "object_id e \<noteq> xdg_surface_id s"
    "object_id e \<noteq> xdg_toplevel_id s" "object_id e \<noteq> shm_id s"
    by (simp_all add: no_handler_def)
  then show ?thesis by (simp add: HandleWaylandEvent_def)
next
  case False
  then show ?thesis by (simp add: HandleWaylandEvent_def)
qed



lemma ReadWaylandEvent_short:
  assumes "load32 (Some buffer) off = Some oid"
    and "load32 (Some buffer) (off + 4) = Some opcode_and_size"
    and "drop_bit 16 opcode_and_size < 8"
  shows "ReadWaylandEvent buffer off w =
     Exit 1 (printf ''Got invalid wayland message size: %d''
               [ArgD (sint (drop_bit 16 opcode_and_size))] w)"
  using assms by (simp add: ReadWaylandEvent_def ReadUint32_def Let_def)

lemma loop_read_exit:
  "buffer_offset < buffer_size \<Longrightarrow> ReadWaylandEvent buffer buffer_offset w = Exit c w' \<Longrightarrow>
   ProcessWaylandEvents_loop env s buffer buffer_size buffer_offset w = Exit c w'"
  by (simp add: ProcessWaylandEvents_loop.simps)

lemma loop_overflow:
  "buffer_offset < buffer_size \<Longrightarrow> ReadWaylandEvent buffer buffer_offset w = Ret (o1, ev, w1) \<Longrightarrow>
   o1 - 1 > buffer_size \<Longrightarrow>
   ProcessWaylandEvents_loop env s buffer buffer_size buffer_offset w =
     Ret (0, s, printf (''A message with a body of %d bytes overflowed the buffer ''
                        @ ''containing %d bytes.'')
                  [ArgD (uint (payload_size ev)), ArgD (int buffer_size)] w1)"
  by (simp add: ProcessWaylandEvents_loop.simps)

lemma loop_dispatch:
  "buffer_offset < buffer_size \<Longrightarrow> ReadWaylandEvent buffer buffer_offset w = Ret (o1, ev, w1) \<Longrightarrow>
   \<not> o1 - 1 > buffer_size \<Longrightarrow>
   ProcessWaylandEvents_loop env s buffer buffer_size buffer_offset w =
     (case HandleWaylandEvent env s ev w1 of
        Ret (r, s1, w2) \<Rightarrow>
          if r = 0 then
            Ret (0, s1, printf ''Error handling Wayland op %u on object %u.''
                          [ArgU (ucast (opcode ev)), ArgU (object_id ev)] w2)
          else ProcessWaylandEvents_loop env s1 buffer buffer_size o1 w2
      | Exit c w' \<Rightarrow> Exit c w'
      | Undef \<Rightarrow> Undef
      | Blocked \<Rightarrow> Blocked)"
  by (subst ProcessWaylandEvents_loop.simps) simp

lemma loop_done:
  "\<not> buffer_offset < buffer_size \<Longrightarrow>
   ProcessWaylandEvents_loop env s buffer buffer_size buffer_offset w = Ret (1, s, w)"
  by (simp add: ProcessWaylandEvents_loop.simps)

lemma EventLoop_loop_step:
  "t \<noteq> SigInt \<Longrightarrow> should_exit w = 0 \<Longrightarrow>
   EventLoop_loop env s recv_buffer w (t # ticks) =
     (case EventLoop_body env s recv_buffer w t of
        Ret (go_on, s1, buf, w1) \<Rightarrow>
          if go_on = 0 then Ret (0, s1, w1) else EventLoop_loop env s1 buf w1 ticks
      | Exit c w' \<Rightarrow> Exit c w'
      | Undef \<Rightarrow> Undef
      | Blocked \<Rightarrow> Blocked)"
  by (cases t) simp_all

lemma EventLoop_body_process_exit:
  "recv t recv_buffer w = (n, buf, w1) \<Longrightarrow> 0 \<le> n \<Longrightarrow>
   ProcessWaylandEvents env s buf (nat n) w1 = Exit c w' \<Longrightarrow>
   EventLoop_body env s recv_buffer w t = Exit c w'"
  by (simp add: EventLoop_body_def)

lemma EventLoop_body_process_fails:
  "recv t recv_buffer w = (n, buf, w1) \<Longrightarrow> 0 \<le> n \<Longrightarrow>
   ProcessWaylandEvents env s buf (nat n) w1 = Ret (0, s1, w2) \<Longrightarrow>
   EventLoop_body env s recv_buffer w t =
     Ret (0, s1, buf, printf ''Error handling wayland messages.'' [] w2)"
  by (simp add: EventLoop_body_def)

lemma EventLoop_body_recv_fails:
  "recv t recv_buffer w = (n, buf, w1) \<Longrightarrow> n < 0 \<Longrightarrow>
   EventLoop_body env s recv_buffer w t =
     Ret (0, s, buf, printf ''Error receiving wayland message: %s'' [ArgErrno] w1)"
  by (simp add: EventLoop_body_def)

lemma main_setup_should_exit:
  "main_setup env = Ret (Inr (s, w)) \<Longrightarrow> should_exit w = 0"
  by (auto simp: main_setup_def Let_def GetWaylandConnection_def OpenSharedMemoryObject_def
        GetWaylandDisplayRegistry_def NextWaylandID_def printf_def and_then_def defined_def
        send_def close_fd_def initial_world_def
      split: option.splits if_splits prod.splits outcome.splits)

lemma main_loop_exit:
  "main_setup env = Ret (Inr (s, w)) \<Longrightarrow> EventLoop env s w ticks = Exit c w' \<Longrightarrow>
   main env ticks = Exit c w'"
  by (simp add: main_def)

lemma main_loop_returns:
  "main_setup env = Ret (Inr (s, w)) \<Longrightarrow> EventLoop env s w ticks = Ret (result, s', w') \<Longrightarrow>
   main env ticks =
     Ret (0, snd (CleanupState s'
                    (if result = 0 then printf ''The event loop exited with an error.'' [] w'
                     else printf ''The event loop ended normally.'' [] w')))"
  by (simp add: main_def Let_def)

lemma WriteWaylandMessage_get_registry:
  "WriteWaylandMessage (local_array 128) 0
     \<lparr>object_id = 1, opcode = 1, payload_size = 4, payload = Some (bytes_of_u32 2)\<rparr> =
   Some ([1, 0, 0, 0, 1, 0, 12, 0, 2, 0, 0, 0] @ replicate 116 0, 12)"
  by (simp add: WriteWaylandMessage_def AppendUint32_def store_def bytes_of_u32_def memcpy_def
        RoundUp4.simps Let_def local_array_def)

lemma main_setup_all_ok: "main_setup all_ok = Ret (Inr (loop_entry_state, loop_entry_world))"
  by (simp add: main_setup_def all_ok_def GetWaylandConnection_def OpenSharedMemoryObject_def
        GetWaylandDisplayRegistry_def NextWaylandID_def WriteWaylandMessage_get_registry
        send_def printf_def initial_world_def zero_state_def Let_def loop_entry_state_def
        loop_entry_world_def)

lemma recv_data_short:
  "length bytes \<le> 4096 \<Longrightarrow>
   recv (RecvData bytes) recv_buffer w =
     (int (length bytes), bytes @ drop (length bytes) recv_buffer, w)"
  by (simp add: recv_def)

section \<open>Malformed headers\<close>

text \<open>
  Claim C6: when the header at the current offset declares a total size below 8 (for
  example 4), \<^verbatim>\<open>ReadWaylandEvent\<close> prints the size and ends the process by \<^verbatim>\<open>exit(1)\<close>.
  Nothing is decoded after it: the loop of \<^verbatim>\<open>ProcessWaylandEvents\<close>, the event loop and
  \<^verbatim>\<open>main\<close> end there too, with exit status 1.
\<close>

theorem short_size_header_ends_run:
  assumes "load32 (Some buffer) buffer_offset = Some oid"
    and "load32 (Some buffer) (buffer_offset + 4) = Some opcode_and_size"
    and "drop_bit 16 opcode_and_size < 8"
    and "buffer_offset < buffer_size"
  shows "ReadWaylandEvent buffer buffer_offset w =
           Exit 1 (printf ''Got invalid wayland message size: %d''
                     [ArgD (sint (drop_bit 16 opcode_and_size))] w)
     \<and> ProcessWaylandEvents_loop env s buffer buffer_size buffer_offset w =
           Exit 1 (printf ''Got invalid wayland message size: %d''
                     [ArgD (sint (drop_bit 16 opcode_and_size))] w)
     \<and> (buffer_offset = 0 \<and> recv t recv_buffer w0 = (int buffer_size, buffer, w)
          \<and> should_exit w0 = 0 \<and> t \<noteq> SigInt \<longrightarrow>
        EventLoop_loop env s recv_buffer w0 (t # ticks) =
           Exit 1 (printf ''Got invalid wayland message size: %d''
                     [ArgD (sint (drop_bit 16 opcode_and_size))] w))
     \<and> (buffer_offset = 0 \<and> main_setup env = Ret (Inr (s, w0))
          \<and> recv t (replicate 4096 0) w0 = (int buffer_size, buffer, w) \<and> t \<noteq> SigInt \<longrightarrow>
        exit_status (main env (t # ticks)) = Some 1)"
proof -
  let ?W = "printf ''Got invalid wayland message size: %d''
              [ArgD (sint (drop_bit 16 opcode_and_size))] w"
  have rd: "ReadWaylandEvent buffer buffer_offset w = Exit 1 ?W"
    using assms(1-3) by (rule ReadWaylandEvent_short)
  have lp: "ProcessWaylandEvents_loop env s buffer buffer_size buffer_offset w = Exit 1 ?W"
    using assms(4) rd by (rule loop_read_exit)
  have el: "EventLoop_loop env s recv_buffer w0 (t # ticks) = Exit 1 ?W"
    if "buffer_offset = 0" and r: "recv t recv_buffer w0 = (int buffer_size, buffer, w)"
      and "should_exit w0 = 0" and "t \<noteq> SigInt" for recv_buffer w0
  proof -
    have "ProcessWaylandEvents env s buffer (nat (int buffer_size)) w = Exit 1 ?W"
      using lp that(1) by (simp add: ProcessWaylandEvents_def)
    with r have "EventLoop_body env s recv_buffer w0 t = Exit 1 ?W"
      by (intro EventLoop_body_process_exit [where n = "int buffer_size"]) simp_all
    with that show ?thesis by (simp add: EventLoop_loop_step)
  qed
  have mn: "exit_status (main env (t # ticks)) = Some 1"
    if "buffer_offset = 0" and "main_setup env = Ret (Inr (s, w0))"
      and "recv t (replicate 4096 0) w0 = (int buffer_size, buffer, w)" and "t \<noteq> SigInt"
  proof -
    have "should_exit w0 = 0" using that(2) by (rule main_setup_should_exit)
    with that have "EventLoop env s w0 (t # ticks) = Exit 1 ?W"
      by (simp add: EventLoop_def el)
    with that(2) have "main env (t # ticks) = Exit 1 ?W" by (rule main_loop_exit)
    then show ?thesis by (simp add: exit_status_def)
  qed
  from rd lp el mn show ?thesis by blast
qed

theorem short_size_header_ends_run_witness:
  "load32 (Some ([1, 0, 0, 0, 0, 0, 4, 0] @ replicate 4088 0)) 0 = Some 1
   \<and> load32 (Some ([1, 0, 0, 0, 0, 0, 4, 0] @ replicate 4088 0)) (0 + 4) = Some 0x40000
   \<and> drop_bit 16 (0x40000 :: uint32) < 8
   \<and> (0 :: nat) < 8
   \<and> ReadWaylandEvent ([1, 0, 0, 0, 0, 0, 4, 0] @ replicate 4088 0) 0 loop_entry_world =
         Exit 1 (printf ''Got invalid wayland message size: %d'' [ArgD 4] loop_entry_world)
   \<and> ProcessWaylandEvents_loop all_ok loop_entry_state
         ([1, 0, 0, 0, 0, 0, 4, 0] @ replicate 4088 0) 8 0 loop_entry_world =
         Exit 1 (printf ''Got invalid wayland message size: %d'' [ArgD 4] loop_entry_world)
   \<and> exit_status (main all_ok [RecvData [1, 0, 0, 0, 0, 0, 4, 0]]) = Some 1"
proof -
  let ?b = "[1, 0, 0, 0, 0, 0, 4, 0] @ replicate 4088 (0 :: byte)"
  have h1: "load32 (Some ?b) 0 = Some 1"
    by (simp add: load32_def u32_of_bytes_def)
  have h2: "load32 (Some ?b) (0 + 4) = Some 0x40000"
    by (simp add: load32_def u32_of_bytes_def)
  have h3: "drop_bit 16 (0x40000 :: uint32) < 8" by simp
  have h4: "(0 :: nat) < 8" by simp
  have rc: "recv (RecvData [1, 0, 0, 0, 0, 0, 4, 0]) (replicate 4096 0) loop_entry_world =
      (int 8, ?b, loop_entry_world)"
    by (simp add: recv_def)
  have s: "sint (drop_bit 16 (0x40000 :: uint32)) = 4" by simp
  from short_size_header_ends_run [OF h1 h2 h3 h4, of loop_entry_world all_ok loop_entry_state
      "RecvData [1, 0, 0, 0, 0, 0, 4, 0]" "replicate 4096 0" loop_entry_world "[]"]
    h1 h2 h3 rc main_setup_all_ok
  show ?thesis by (simp add: s)
qed

section \<open>Unsupported events\<close>

text \<open>
  Claim C8: for an event that matches no handler, \<^verbatim>\<open>HandleWaylandEvent\<close> logs it and
  returns 0 with the state unchanged; \<^verbatim>\<open>ProcessWaylandEvents\<close>, on reaching that message,
  logs the failure and returns 0 at once, whatever follows in the batch; and when the
  message is the first of a received batch, the event loop returns 0 and \<^verbatim>\<open>main\<close> tears
  down and returns, without looking at what arrives later.
\<close>

theorem unsupported_event_aborts_run:
  assumes "no_handler s e"
    and "buffer_offset < buffer_size"
    and "ReadWaylandEvent buffer buffer_offset w0 = Ret (end_offset, e, w)"
    and "end_offset - 1 \<le> buffer_size"
  shows "HandleWaylandEvent env s e w =
           Ret (0, s, printf ''Handling opcode %d on object %u is not supported!''
                        [ArgD (uint (opcode e)), ArgU (object_id e)] w)
     \<and> ProcessWaylandEvents_loop env s buffer buffer_size buffer_offset w0 =
           Ret (0, s, printf ''Error handling Wayland op %u on object %u.''
                        [ArgU (ucast (opcode e)), ArgU (object_id e)]
                        (printf ''Handling opcode %d on object %u is not supported!''
                           [ArgD (uint (opcode e)), ArgU (object_id e)] w))
     \<and> (buffer_offset = 0 \<and> recv t recv_buffer wr = (int buffer_size, buffer, w0)
          \<and> should_exit wr = 0 \<and> t \<noteq> SigInt \<longrightarrow>
        EventLoop_loop env s recv_buffer wr (t # ticks) =
           Ret (0, s, printf ''Error handling wayland messages.'' []
                        (printf ''Error handling Wayland op %u on object %u.''
                           [ArgU (ucast (opcode e)), ArgU (object_id e)]
                           (printf ''Handling opcode %d on object %u is not supported!''
                              [ArgD (uint (opcode e)), ArgU (object_id e)] w))))
     \<and> (buffer_offset = 0 \<and> main_setup env = Ret (Inr (s, wr))
          \<and> recv t (replicate 4096 0) wr = (int buffer_size, buffer, w0) \<and> t \<noteq> SigInt \<longrightarrow>
        main env (t # ticks) =
           Ret (0, snd (CleanupState s
                  (printf ''The event loop exited with an error.'' []
                     (printf ''Error handling wayland messages.'' []
                        (printf ''Error handling Wayland op %u on object %u.''
                           [ArgU (ucast (opcode e)), ArgU (object_id e)]
                           (printf ''Handling opcode %d on object %u is not supported!''
                              [ArgD (uint (opcode e)), ArgU (object_id e)] w)))))))"
proof -
  let ?w1 = "printf ''Handling opcode %d on object %u is not supported!''
               [ArgD (uint (opcode e)), ArgU (object_id e)] w"
  let ?w2 = "printf ''Error handling Wayland op %u on object %u.''
               [ArgU (ucast (opcode e)), ArgU (object_id e)] ?w1"
  have h: "HandleWaylandEvent env s e w = Ret (0, s, ?w1)"
    using assms(1) by (rule HandleWaylandEvent_unsupported)
  have "\<not> end_offset - 1 > buffer_size" using assms(4) by simp
  with assms(2,3)
  have lp: "ProcessWaylandEvents_loop env s buffer buffer_size buffer_offset w0 = Ret (0, s, ?w2)"
    by (simp add: loop_dispatch h)
  have el: "EventLoop_loop env s recv_buffer wr (t # ticks) =
      Ret (0, s, printf ''Error handling wayland messages.'' [] ?w2)"
    if "buffer_offset = 0" and r: "recv t recv_buffer wr = (int buffer_size, buffer, w0)"
      and "should_exit wr = 0" and "t \<noteq> SigInt" for recv_buffer
  proof -
    have "ProcessWaylandEvents env s buffer (nat (int buffer_size)) w0 = Ret (0, s, ?w2)"
      using lp that(1) by (simp add: ProcessWaylandEvents_def)
    with r have "EventLoop_body env s recv_buffer wr t =
        Ret (0, s, buffer, printf ''Error handling wayland messages.'' [] ?w2)"
      by (intro EventLoop_body_process_fails [where n = "int buffer_size"]) simp_all
    with that show ?thesis by (simp add: EventLoop_loop_step)
  qed
  have mn: "main env (t # ticks) =
      Ret (0, snd (CleanupState s
             (printf ''The event loop exited with an error.'' []
                (printf ''Error handling wayland messages.'' [] ?w2))))"
    if "buffer_offset = 0" and ms: "main_setup env = Ret (Inr (s, wr))"
      and "recv t (replicate 4096 0) wr = (int buffer_size, buffer, w0)" and "t \<noteq> SigInt"
  proof -
    have "should_exit wr = 0" using ms by (rule main_setup_should_exit)
    with that have "EventLoop env s wr (t # ticks) =
        Ret (0, s, printf ''Error handling wayland messages.'' [] ?w2)"
      by (simp add: EventLoop_def el)
    from main_loop_returns [OF ms this] show ?thesis by simp
  qed
  from h lp el mn show ?thesis by blast
qed

theorem unsupported_event_aborts_run_witness:
  "no_handler loop_entry_state \<lparr>object_id = 9, opcode = 5, payload_size = 0, payload = None\<rparr>
   \<and> (0 :: nat) < 8
   \<and> ReadWaylandEvent ([9, 0, 0, 0, 5, 0, 8, 0] @ replicate 4088 0) 0 loop_entry_world =
        Ret (8, \<lparr>object_id = 9, opcode = 5, payload_size = 0, payload = None\<rparr>, loop_entry_world)
   \<and> (8 :: nat) - 1 \<le> 8
   \<and> HandleWaylandEvent all_ok loop_entry_state
        \<lparr>object_id = 9, opcode = 5, payload_size = 0, payload = None\<rparr> loop_entry_world =
        Ret (0, loop_entry_state,
             printf ''Handling opcode %d on object %u is not supported!'' [ArgD 5, ArgU 9]
               loop_entry_world)
   \<and> EventLoop_loop all_ok loop_entry_state (replicate 4096 0) loop_entry_world
        [RecvData [9, 0, 0, 0, 5, 0, 8, 0], RecvData [9, 0, 0, 0, 5, 0, 8, 0]] =
        Ret (0, loop_entry_state,
             printf ''Error handling wayland messages.'' []
               (printf ''Error handling Wayland op %u on object %u.'' [ArgU 5, ArgU 9]
                  (printf ''Handling opcode %d on object %u is not supported!''
                     [ArgD 5, ArgU 9] loop_entry_world)))
   \<and> main all_ok [RecvData [9, 0, 0, 0, 5, 0, 8, 0], RecvData [9, 0, 0, 0, 5, 0, 8, 0]] =
        Ret (0, snd (CleanupState loop_entry_state
               (printf ''The event loop exited with an error.'' []
                  (printf ''Error handling wayland messages.'' []
                     (printf ''Error handling Wayland op %u on object %u.'' [ArgU 5, ArgU 9]
                        (printf ''Handling opcode %d on object %u is not supported!''
                           [ArgD 5, ArgU 9] loop_entry_world))))))"
proof -
  let ?b = "[9, 0, 0, 0, 5, 0, 8, 0] @ replicate 4088 (0 :: byte)"
  let ?e = "\<lparr>object_id = 9, opcode = 5, payload_size = 0, payload = None\<rparr>"
  have h1: "no_handler loop_entry_state ?e"
    by (simp add: no_handler_def loop_entry_state_def zero_state_def)
  have h2: "(0 :: nat) < 8" by simp
  have h3: "ReadWaylandEvent ?b 0 loop_entry_world = Ret (8, ?e, loop_entry_world)"
    by (simp add: ReadWaylandEvent_def ReadUint32_def load32_def u32_of_bytes_def RoundUp4.simps
          Let_def)
  have h4: "(8 :: nat) - 1 \<le> 8" by simp
  have rc: "recv (RecvData [9, 0, 0, 0, 5, 0, 8, 0]) (replicate 4096 0) loop_entry_world =
      (int 8, ?b, loop_entry_world)"
    by (simp add: recv_def)
  have se: "should_exit loop_entry_world = 0" by (simp add: loop_entry_world_def)
  from unsupported_event_aborts_run [OF h1 h2 h3 h4, of all_ok
      "RecvData [9, 0, 0, 0, 5, 0, 8, 0]" "replicate 4096 0" loop_entry_world
      "[RecvData [9, 0, 0, 0, 5, 0, 8, 0]]"]
    h1 h3 rc se main_setup_all_ok
  show ?thesis by simp
qed

section \<open>The top-level configure handler\<close>




section \<open>The overflow guard\<close>

text \<open>
  Claim C10: after a message has been decoded in \<^verbatim>\<open>ProcessWaylandEvents\<close>, the guard
  \<^verbatim>\<open>(buffer_offset - 1) > buffer_size\<close> rejects it exactly when its end offset exceeds the
  batch length by 2 or more. A message that ends one byte past the received data is
  handed to \<^verbatim>\<open>HandleWaylandEvent\<close>, and the loop then ends with its result.
\<close>

theorem overflow_guard_off_by_one:
  assumes "buffer_offset < buffer_size"
    and "ReadWaylandEvent buffer buffer_offset w = Ret (end_offset, ev, w1)"
  shows "(buffer_size + 2 \<le> end_offset \<longrightarrow>
            ProcessWaylandEvents_loop env s buffer buffer_size buffer_offset w =
              Ret (0, s, printf (''A message with a body of %d bytes overflowed the buffer ''
                                 @ ''containing %d bytes.'')
                           [ArgD (uint (payload_size ev)), ArgD (int buffer_size)] w1))
     \<and> (end_offset \<le> buffer_size + 1 \<longrightarrow>
            ProcessWaylandEvents_loop env s buffer buffer_size buffer_offset w =
              (case HandleWaylandEvent env s ev w1 of
                 Ret (r, s1, w2) \<Rightarrow>
                   if r = 0 then
                     Ret (0, s1, printf ''Error handling Wayland op %u on object %u.''
                                   [ArgU (ucast (opcode ev)), ArgU (object_id ev)] w2)
                   else ProcessWaylandEvents_loop env s1 buffer buffer_size end_offset w2
               | Exit c w' \<Rightarrow> Exit c w'
               | Undef \<Rightarrow> Undef
               | Blocked \<Rightarrow> Blocked))
     \<and> (end_offset = buffer_size + 1 \<longrightarrow>
            ProcessWaylandEvents_loop env s buffer buffer_size buffer_offset w =
              (case HandleWaylandEvent env s ev w1 of
                 Ret (r, s1, w2) \<Rightarrow>
                   if r = 0 then
                     Ret (0, s1, printf ''Error handling Wayland op %u on object %u.''
                                   [ArgU (ucast (opcode ev)), ArgU (object_id ev)] w2)
                   else Ret (1, s1, w2)
               | Exit c w' \<Rightarrow> Exit c w'
               | Undef \<Rightarrow> Undef
               | Blocked \<Rightarrow> Blocked))"
proof (intro conjI impI)
  assume "buffer_size + 2 \<le> end_offset"
  then have "end_offset - 1 > buffer_size" by simp
  with assms show "ProcessWaylandEvents_loop env s buffer buffer_size buffer_offset w =
      Ret (0, s, printf (''A message with a body of %d bytes overflowed the buffer ''
                         @ ''containing %d bytes.'')
                   [ArgD (uint (payload_size ev)), ArgD (int buffer_size)] w1)"
    by (rule loop_overflow)
next
  assume "end_offset \<le> buffer_size + 1"
  then have "\<not> end_offset - 1 > buffer_size" by simp
  with assms show "ProcessWaylandEvents_loop env s buffer buffer_size buffer_offset w =
      (case HandleWaylandEvent env s ev w1 of
         Ret (r, s1, w2) \<Rightarrow>
           if r = 0 then
             Ret (0, s1, printf ''Error handling Wayland op %u on object %u.''
                           [ArgU (ucast (opcode ev)), ArgU (object_id ev)] w2)
           else ProcessWaylandEvents_loop env s1 buffer buffer_size end_offset w2
       | Exit c w' \<Rightarrow> Exit c w'
       | Undef \<Rightarrow> Undef
       | Blocked \<Rightarrow> Blocked)"
    by (rule loop_dispatch)
next
  assume e: "end_offset = buffer_size + 1"
  then have "\<not> end_offset - 1 > buffer_size" by simp
  with assms have "ProcessWaylandEvents_loop env s buffer buffer_size buffer_offset w =
      (case HandleWaylandEvent env s ev w1 of
         Ret (r, s1, w2) \<Rightarrow>
           if r = 0 then
             Ret (0, s1, printf ''Error handling Wayland op %u on object %u.''
                           [ArgU (ucast (opcode ev)), ArgU (object_id ev)] w2)
           else ProcessWaylandEvents_loop env s1 buffer buffer_size end_offset w2
       | Exit c w' \<Rightarrow> Exit c w'
       | Undef \<Rightarrow> Undef
       | Blocked \<Rightarrow> Blocked)"
    by (rule loop_dispatch)
  moreover have "ProcessWaylandEvents_loop env s1 buffer buffer_size end_offset w2 = Ret (1, s1, w2)"
    for s1 w2 using e by (simp add: loop_done)
  ultimately show "ProcessWaylandEvents_loop env s buffer buffer_size buffer_offset w =
      (case HandleWaylandEvent env s ev w1 of
         Ret (r, s1, w2) \<Rightarrow>
           if r = 0 then
             Ret (0, s1, printf ''Error handling Wayland op %u on object %u.''
                           [ArgU (ucast (opcode ev)), ArgU (object_id ev)] w2)
           else Ret (1, s1, w2)
       | Exit c w' \<Rightarrow> Exit c w'
       | Undef \<Rightarrow> Undef
       | Blocked \<Rightarrow> Blocked)"
    by (simp split: outcome.splits prod.splits)
qed

theorem overflow_guard_off_by_one_witness:
  "(0 :: nat) < 11
   \<and> ReadWaylandEvent [3, 0, 0, 0, 0, 0, 12, 0, 1, 0, 0, 0] 0 loop_entry_world =
        Ret (12, \<lparr>object_id = 3, opcode = 0, payload_size = 4, payload = Some [1, 0, 0, 0]\<rparr>,
             loop_entry_world)
   \<and> (12 :: nat) = 11 + 1
   \<and> ProcessWaylandEvents_loop all_ok toplevel_state [3, 0, 0, 0, 0, 0, 12, 0, 1, 0, 0, 0] 11 0
        loop_entry_world =
        Ret (1, toplevel_state,
             printf ''Supported pixel format: 0x%08x'' [ArgU 1] loop_entry_world)"
proof -
  let ?b = "[3, 0, 0, 0, 0, 0, 12, 0, 1, 0, 0, 0] :: byte list"
  let ?e = "\<lparr>object_id = 3, opcode = 0, payload_size = 4, payload = Some [1, 0, 0, 0]\<rparr>"
  have h1: "(0 :: nat) < 11" by simp
  have h2: "ReadWaylandEvent ?b 0 loop_entry_world = Ret (12, ?e, loop_entry_world)"
    by (simp add: ReadWaylandEvent_def ReadUint32_def load32_def u32_of_bytes_def RoundUp4.simps
          Let_def ptr_add_def)
  have hd: "HandleWaylandEvent all_ok toplevel_state ?e loop_entry_world =
      Ret (1, toplevel_state, printf ''Supported pixel format: 0x%08x'' [ArgU 1] loop_entry_world)"
    by (simp add: HandleWaylandEvent_def toplevel_state_def loop_entry_state_def zero_state_def
          load32_def u32_of_bytes_def)
  from overflow_guard_off_by_one [OF h1 h2, of all_ok toplevel_state, THEN conjunct2,
      THEN conjunct2] h2 hd
  show ?thesis by simp
qed


section \<open>What the steps of the event loop preserve\<close>

lemma and_then_RetE:
  assumes "and_then m f = Ret y"
  obtains x where "m = Ret x" and "f x = Ret y"
  using assms by (cases m) (simp_all add: and_then_def)

lemma defined_RetE:
  assumes "defined m f = Ret y"
  obtains x where "m = Some x" and "f x = Ret y"
  using assms by (cases m) (simp_all add: defined_def)

lemma same_progress_refl [simp]: "same_progress s s"
  by (simp add: same_progress_def)

lemma same_progress_trans: "same_progress a b \<Longrightarrow> same_progress b c \<Longrightarrow> same_progress a c"
  by (simp add: same_progress_def)

lemma CreateWLSurface_frame:
  "CreateWLSurface env s w = Ret (r, s', w') \<Longrightarrow> same_progress s s'"
  by (auto simp: CreateWLSurface_def Let_def same_progress_def
      elim!: and_then_RetE defined_RetE split: prod.splits if_splits)

lemma CreateXDGSurface_frame:
  "CreateXDGSurface env s w = Ret (r, s', w') \<Longrightarrow> same_progress s s'"
  by (auto simp: CreateXDGSurface_def Let_def same_progress_def
      elim!: and_then_RetE defined_RetE split: prod.splits if_splits)

lemma GetXDGTopLevel_frame:
  "GetXDGTopLevel env s w = Ret (r, s', w') \<Longrightarrow> same_progress s s'"
  by (auto simp: GetXDGTopLevel_def Let_def same_progress_def
      elim!: and_then_RetE defined_RetE split: prod.splits if_splits)

lemma CreateSurface_frame:
  "CreateSurface env s w = Ret (r, s', w') \<Longrightarrow> same_progress s s'"
  by (auto simp: CreateSurface_def same_progress_def elim!: and_then_RetE
      split: prod.splits if_splits
      dest!: CreateWLSurface_frame CreateXDGSurface_frame GetXDGTopLevel_frame)

lemma CreateShmPool_frame:
  "CreateShmPool env s w = Ret (r, s', w') \<Longrightarrow> same_progress s s'"
  by (auto simp: CreateShmPool_def Let_def same_progress_def
      elim!: and_then_RetE defined_RetE split: prod.splits if_splits)

lemma CreateFrameBuffer_frame:
  "CreateFrameBuffer env s w = Ret (r, s', w') \<Longrightarrow> same_progress s s'"
  by (auto simp: CreateFrameBuffer_def Let_def same_progress_def
      elim!: and_then_RetE defined_RetE split: prod.splits if_splits)

lemma RenderFrame_frame:
  assumes "RenderFrame env s w = Ret (r, s', w')"
  shows "binding_done s' = binding_done s
     \<and> (if r = 0 then surface_state s' = surface_state s
         else r = 1 \<and> surface_state s' = SURFACE_ATTACHED)"
  using assms
  by (auto simp: RenderFrame_def Let_def same_progress_def
      elim!: and_then_RetE defined_RetE split: prod.splits if_splits
      dest!: CreateShmPool_frame CreateFrameBuffer_frame)

lemma HandleWaylandEvent_frame:
  assumes "HandleWaylandEvent env s e w = Ret (r, s', w')"
  shows "binding_done s' = binding_done s
     \<and> (surface_state s' = surface_state s
        \<or> (surface_state s' = ACKED_CONFIGURE \<and> r = 1 \<and> object_id e = xdg_surface_id s
            \<and> opcode e = 0 \<and> payload_size e = 4 \<and> object_id e \<noteq> registry_id s
            \<and> object_id e \<noteq> 1 \<and> object_id e \<noteq> xdg_wm_base_id s))"
  using assms
  by (auto simp: HandleWaylandEvent_def Let_def
      elim!: and_then_RetE defined_RetE split: prod.splits if_splits)

lemma BindingDone_frame:
  "BindingDone s = (r, s') \<Longrightarrow> surface_state s' = surface_state s
     \<and> (binding_done s \<noteq> 0 \<longrightarrow> binding_done s' \<noteq> 0)"
  by (auto simp: BindingDone_def split: if_splits)

lemma step_keeps:
  assumes "step env s s'"
  shows "(binding_done s \<noteq> 0 \<longrightarrow> binding_done s' \<noteq> 0)
     \<and> (surface_state s \<noteq> NONE \<longrightarrow> surface_state s' \<noteq> NONE)"
  using assms
proof cases
  case (step_event e w r w')
  from HandleWaylandEvent_frame [OF this] show ?thesis by auto
next
  case (step_binding r)
  from BindingDone_frame [OF this] show ?thesis by auto
next
  case (step_create w r w')
  from CreateSurface_frame [OF this] show ?thesis by (simp add: same_progress_def)
next
  case (step_render w r w')
  from RenderFrame_frame [OF this] show ?thesis by (auto split: if_splits)
qed

lemma steps_keep:
  assumes "(step env)\<^sup>*\<^sup>* s s'"
  shows "(binding_done s \<noteq> 0 \<longrightarrow> binding_done s' \<noteq> 0)
     \<and> (surface_state s \<noteq> NONE \<longrightarrow> surface_state s' \<noteq> NONE)"
  using assms
proof (induction rule: rtranclp_induct)
  case base
  show ?case by simp
next
  case (step y z)
  from step.IH step_keeps [OF step.hyps(2)] show ?case by blast
qed

lemma ProcessWaylandEvents_loop_runs:
  "ProcessWaylandEvents_loop env s buffer buffer_size buffer_offset w = Ret (r, s', w') \<Longrightarrow>
   (loop_step env)\<^sup>*\<^sup>* s s'"
proof (induction env s buffer buffer_size buffer_offset w rule: ProcessWaylandEvents_loop.induct)
  case (1 env s buffer buffer_size buffer_offset w)
  show ?case
  proof (cases "buffer_offset < buffer_size")
    case False
    with "1.prems" show ?thesis by (simp add: ProcessWaylandEvents_loop.simps)
  next
    case True
    show ?thesis
    proof (cases "ReadWaylandEvent buffer buffer_offset w")
      case (Ret x)
      obtain o1 ev w1 where x: "x = (o1, ev, w1)" by (cases x) auto
      show ?thesis
      proof (cases "o1 - 1 > buffer_size")
        case over: True
        with True Ret x "1.prems" show ?thesis by (simp add: ProcessWaylandEvents_loop.simps)
      next
        case fits: False
        show ?thesis
        proof (cases "HandleWaylandEvent env s ev w1")
          case h: (Ret y)
          obtain r1 s1 w2 where y: "y = (r1, s1, w2)" by (cases y) auto
          from h y have st: "loop_step env s s1" by (auto intro: loop_event)
          show ?thesis
          proof (cases "r1 = 0")
            case True
            with \<open>buffer_offset < buffer_size\<close> Ret x fits h y "1.prems" have "s' = s1"
              by (simp add: ProcessWaylandEvents_loop.simps)
            with st show ?thesis by auto
          next
            case False
            with \<open>buffer_offset < buffer_size\<close> Ret x fits h y "1.prems"
            have "ProcessWaylandEvents_loop env s1 buffer buffer_size o1 w2 = Ret (r, s', w')"
              by (simp add: ProcessWaylandEvents_loop.simps [of env s])
            with "1.IH" [OF \<open>buffer_offset < buffer_size\<close> Ret x [symmetric] refl fits h
                y [symmetric] refl False]
            have "(loop_step env)\<^sup>*\<^sup>* s1 s'" by simp
            with st show ?thesis by auto
          qed
        qed (use True Ret x fits "1.prems" in \<open>simp_all add: ProcessWaylandEvents_loop.simps\<close>)
      qed
    qed (use True "1.prems" in \<open>simp_all add: ProcessWaylandEvents_loop.simps\<close>)
  qed
qed

lemma loop_render_run:
  "surface_state s = ACKED_CONFIGURE \<Longrightarrow> RenderFrame env s w = Ret (r, s', w') \<Longrightarrow>
   (loop_step env)\<^sup>*\<^sup>* s s'"
  by (rule r_into_rtranclp) (rule loop_render)

lemma EventLoop_body_runs:
  assumes "EventLoop_body env s recv_buffer w t = Ret (go_on, s', buf, w')"
  shows "(loop_step env)\<^sup>*\<^sup>* s s'"
proof -
  obtain n b1 w1 where rc: "recv t recv_buffer w = (n, b1, w1)" by (cases "recv t recv_buffer w")
  show ?thesis
  proof (cases "n < 0")
    case True
    with assms rc have "s' = s" by (simp add: EventLoop_body_def)
    then show ?thesis by simp
  next
    case False
    with assms rc obtain r1 s1 w2 where
      p: "ProcessWaylandEvents env s b1 (nat n) w1 = Ret (r1, s1, w2)"
      and rest: "(if r1 = 0 then Ret (0, s1, b1, printf ''Error handling wayland messages.'' [] w2)
        else
          case BindingDone s1 of (done, s2) \<Rightarrow>
          and_then
            (if done \<noteq> 0 \<and> surface_id s2 = 0 then
               and_then (CreateSurface env s2 w2) (\<lambda>(r2, s3, w3).
                 if r2 = 0 then Ret (0 :: int, s3, printf ''Error creating surface.'' [] w3)
                 else
               and_then (CommitSurface env s3 w3) (\<lambda>(r3, w4).
                 if r3 = 0 then
                   Ret (0, s3, printf ''Error initially committing surface.'' [] w4)
                 else Ret (1, s3, printf ''Created surface.'' [] w4)))
             else Ret (1, s2, w2))
            (\<lambda>(r4, s4, w5). if r4 = 0 then Ret (0, s4, b1, w5) else
          if surface_state s4 = ACKED_CONFIGURE then
            and_then (RenderFrame env s4 w5) (\<lambda>(r5, s5, w6).
              if r5 = 0 then Ret (0, s5, b1, printf ''Error rendering a frame.'' [] w6)
              else Ret (1, s5, b1, w6))
          else Ret (1, s4, b1, w5))) = Ret (go_on, s', buf, w')"
      by (auto simp: EventLoop_body_def elim!: and_then_RetE)
    from p have a: "(loop_step env)\<^sup>*\<^sup>* s s1"
      by (simp add: ProcessWaylandEvents_def ProcessWaylandEvents_loop_runs)
    show ?thesis
    proof (cases "r1 = 0")
      case True
      with rest have "s' = s1" by simp
      with a show ?thesis by simp
    next
      case False
      obtain bound s2 where bd: "BindingDone s1 = (bound, s2)" by (cases "BindingDone s1")
      then have b: "loop_step env s1 s2" by (rule loop_binding)
      from rest False bd obtain r4 s4 w5 where
        mid: "(if bound \<noteq> 0 \<and> surface_id s2 = 0 then
               and_then (CreateSurface env s2 w2) (\<lambda>(r2, s3, w3).
                 if r2 = 0 then Ret (0 :: int, s3, printf ''Error creating surface.'' [] w3)
                 else
               and_then (CommitSurface env s3 w3) (\<lambda>(r3, w4).
                 if r3 = 0 then
                   Ret (0, s3, printf ''Error initially committing surface.'' [] w4)
                 else Ret (1, s3, printf ''Created surface.'' [] w4)))
             else Ret (1, s2, w2)) = Ret (r4, s4, w5)"
        and fin: "(if r4 = 0 then Ret (0, s4, b1, w5) else
          if surface_state s4 = ACKED_CONFIGURE then
            and_then (RenderFrame env s4 w5) (\<lambda>(r5, s5, w6).
              if r5 = 0 then Ret (0, s5, b1, printf ''Error rendering a frame.'' [] w6)
              else Ret (1, s5, b1, w6))
          else Ret (1, s4, b1, w5)) = Ret (go_on, s', buf, w')"
        by (auto elim!: and_then_RetE)
      from mid have c: "(loop_step env)\<^sup>*\<^sup>* s2 s4"
        by (auto elim!: and_then_RetE split: if_splits prod.splits dest!: loop_create)
      from fin have d: "(loop_step env)\<^sup>*\<^sup>* s4 s'"
        by (auto elim!: and_then_RetE split: if_splits prod.splits
            intro: loop_render_run)
      from a b c d show ?thesis by auto
    qed
  qed
qed

lemma EventLoop_loop_runs:
  "EventLoop_loop env s recv_buffer w ticks = Ret (r, s', w') \<Longrightarrow> (loop_step env)\<^sup>*\<^sup>* s s'"
proof (induction ticks arbitrary: s recv_buffer w)
  case Nil
  then show ?case by (simp split: if_splits)
next
  case (Cons t ticks)
  show ?case
  proof (cases "t = SigInt")
    case True
    with Cons show ?thesis by simp
  next
    case False
    show ?thesis
    proof (cases "should_exit w = 0")
      case nz: False
      with False Cons.prems have "s' = s" by (cases t) simp_all
      then show ?thesis by simp
    next
      case True
      with False Cons.prems have
        "(case EventLoop_body env s recv_buffer w t of
            Ret (go_on, s1, buf, w1) \<Rightarrow>
              if go_on = 0 then Ret (0, s1, w1) else EventLoop_loop env s1 buf w1 ticks
          | Exit c w' \<Rightarrow> Exit c w' | Undef \<Rightarrow> Undef | Blocked \<Rightarrow> Blocked) = Ret (r, s', w')"
        by (simp add: EventLoop_loop_step)
      then obtain go_on s1 buf w1 where
        b: "EventLoop_body env s recv_buffer w t = Ret (go_on, s1, buf, w1)"
        and rest: "(if go_on = 0 then Ret (0, s1, w1) else EventLoop_loop env s1 buf w1 ticks)
                     = Ret (r, s', w')"
        by (auto split: outcome.splits prod.splits)
      from b have a: "(loop_step env)\<^sup>*\<^sup>* s s1" by (rule EventLoop_body_runs)
      from rest have "(loop_step env)\<^sup>*\<^sup>* s1 s'"
        by (auto split: if_splits dest: Cons.IH)
      with a show ?thesis by auto
    qed
  qed
qed

lemma loop_step_step: "loop_step env s s' \<Longrightarrow> step env s s'"
  by (cases rule: loop_step.cases) (auto intro: step.intros)

lemma loop_steps_steps: "(loop_step env)\<^sup>*\<^sup>* s s' \<Longrightarrow> (step env)\<^sup>*\<^sup>* s s'"
proof (induction rule: rtranclp_induct)
  case base
  show ?case by simp
next
  case (step y z)
  from step.hyps(2) have "step env y z" by (rule loop_step_step)
  with step.IH show ?case by auto
qed

lemma EventLoop_loop_steps:
  "EventLoop_loop env s recv_buffer w ticks = Ret (r, s', w') \<Longrightarrow> (step env)\<^sup>*\<^sup>* s s'"
  by (rule loop_steps_steps) (rule EventLoop_loop_runs)

lemma loop_step_transition:
  assumes "loop_step env s s'"
  shows "surface_transition (surface_state s) (surface_state s')"
  using assms
proof cases
  case (loop_event e w r w')
  from HandleWaylandEvent_frame [OF this] show ?thesis
    by (auto simp: surface_transition_def)
next
  case (loop_binding r)
  from BindingDone_frame [OF this] show ?thesis by (simp add: surface_transition_def)
next
  case (loop_create w r w')
  from CreateSurface_frame [OF this] show ?thesis
    by (simp add: same_progress_def surface_transition_def)
next
  case (loop_render w r w')
  from RenderFrame_frame [OF loop_render(2)] loop_render(1) show ?thesis
    by (auto simp: surface_transition_def split: if_splits)
qed

lemma WriteWaylandMessage_ack:
  "WriteWaylandMessage (local_array 64) 0
     \<lparr>object_id = 7, opcode = 4, payload_size = 4, payload = Some (bytes_of_u32 11)\<rparr> =
   Some ([7, 0, 0, 0, 4, 0, 12, 0, 11, 0, 0, 0] @ replicate 52 0, 12)"
  by (simp add: WriteWaylandMessage_def AppendUint32_def store_def bytes_of_u32_def memcpy_def
        RoundUp4.simps Let_def local_array_def)

lemma AckXDGSurfaceConfigure_ok:
  "xdg_surface_id s = 7 \<Longrightarrow> socket_fd s = 3 \<Longrightarrow>
   AckXDGSurfaceConfigure all_ok s 11 w =
     Ret (1, w\<lparr>syscalls := syscalls w @ [SysSend 3 [7, 0, 0, 0, 4, 0, 12, 0, 11, 0, 0, 0]]\<rparr>)"
  by (simp add: AckXDGSurfaceConfigure_def WriteWaylandMessage_ack send_def all_ok_def Let_def)

lemma configure_event_handled:
  assumes "xdg_surface_id s = 7" and "socket_fd s = 3" and "registry_id s = 2"
    and "xdg_wm_base_id s = 5"
  shows "HandleWaylandEvent all_ok s
     \<lparr>object_id = 7, opcode = 0, payload_size = 4, payload = Some [11, 0, 0, 0]\<rparr> w =
     Ret (1, s\<lparr>surface_state := ACKED_CONFIGURE\<rparr>,
          w\<lparr>syscalls := syscalls w @ [SysSend 3 [7, 0, 0, 0, 4, 0, 12, 0, 11, 0, 0, 0]]\<rparr>)"
proof -
  have "load32 (Some [11, 0, 0, 0]) 0 = Some 11"
    by (simp add: load32_def u32_of_bytes_def)
  with assms show ?thesis
    by (simp add: HandleWaylandEvent_def AckXDGSurfaceConfigure_ok)
qed

section \<open>Exit status after a failure of the event loop\<close>

text \<open>
  Claim C1 says that a failure of the event loop leads to exit status 1 after teardown.
  The code does not do that. In an environment where the setup succeeds and the first
  \<^verbatim>\<open>recv\<close> fails, \<^verbatim>\<open>EventLoop\<close> returns 0, \<^verbatim>\<open>main\<close> prints that the loop exited with an
  error, runs \<^verbatim>\<open>CleanupState\<close> and returns 0: the exit status is 0.
\<close>

theorem main_exit_status_after_loop_error:
  "main all_ok [RecvError] =
     Ret (0, snd (CleanupState loop_entry_state
                    (printf ''The event loop exited with an error.'' []
                       (printf ''Error receiving wayland message: %s'' [ArgErrno]
                          loop_entry_world))))
   \<and> exit_status (main all_ok [RecvError]) = Some 0"
proof -
  have se: "should_exit loop_entry_world = 0" by (simp add: loop_entry_world_def)
  have "EventLoop_body all_ok loop_entry_state (replicate 4096 0) loop_entry_world RecvError =
      Ret (0, loop_entry_state, replicate 4096 0,
           printf ''Error receiving wayland message: %s'' [ArgErrno] loop_entry_world)"
    by (rule EventLoop_body_recv_fails [where n = "-1"]) (simp_all add: recv_def)
  then have "EventLoop all_ok loop_entry_state loop_entry_world [RecvError] =
      Ret (0, loop_entry_state,
           printf ''Error receiving wayland message: %s'' [ArgErrno] loop_entry_world)"
    using se by (simp add: EventLoop_def EventLoop_loop_step)
  from main_loop_returns [OF main_setup_all_ok this]
  show ?thesis by (simp add: exit_status_def)
qed

section \<open>Binding completion\<close>

lemma BindingDone_cached: "binding_done s \<noteq> 0 \<Longrightarrow> fst (BindingDone s) = 1"
  by (simp add: BindingDone_def)

lemma BindingDone_sets: "fst (BindingDone s) = 1 \<Longrightarrow> binding_done (snd (BindingDone s)) \<noteq> 0"
  by (auto simp: BindingDone_def split: if_splits)

text \<open>
  Claim C7: once \<^verbatim>\<open>BindingDone\<close> has returned 1, it returns 1 in every state reached
  later, by any sequence of handled events, surface creations and rendered frames, and in
  the state in which the event loop returns. While \<open>binding_done\<close> is still 0, it returns
  1 exactly when the three identifiers \<open>shm_id\<close>, \<open>compositor_id\<close> and \<open>xdg_wm_base_id\<close>
  are all non-zero.
\<close>

theorem BindingDone_monotone:
  "(fst (BindingDone s) = 1 \<and> (step env)\<^sup>*\<^sup>* (snd (BindingDone s)) s' \<longrightarrow>
       fst (BindingDone s') = 1)
   \<and> (fst (BindingDone s) = 1
        \<and> EventLoop_loop env (snd (BindingDone s)) recv_buffer w ticks = Ret (r, s', w') \<longrightarrow>
       fst (BindingDone s') = 1)
   \<and> (binding_done s = 0 \<longrightarrow>
       (fst (BindingDone s) = 1) =
         (shm_id s \<noteq> 0 \<and> compositor_id s \<noteq> 0 \<and> xdg_wm_base_id s \<noteq> 0))"
proof (intro conjI impI)
  assume a: "fst (BindingDone s) = 1 \<and> (step env)\<^sup>*\<^sup>* (snd (BindingDone s)) s'"
  then have "binding_done (snd (BindingDone s)) \<noteq> 0" by (simp add: BindingDone_sets)
  with a steps_keep [of env "snd (BindingDone s)" s'] have "binding_done s' \<noteq> 0" by simp
  then show "fst (BindingDone s') = 1" by (rule BindingDone_cached)
next
  assume a: "fst (BindingDone s) = 1
    \<and> EventLoop_loop env (snd (BindingDone s)) recv_buffer w ticks = Ret (r, s', w')"
  then have "binding_done (snd (BindingDone s)) \<noteq> 0" by (simp add: BindingDone_sets)
  moreover from a have "(step env)\<^sup>*\<^sup>* (snd (BindingDone s)) s'"
    by (auto dest: EventLoop_loop_steps)
  ultimately have "binding_done s' \<noteq> 0" using steps_keep [of env "snd (BindingDone s)" s'] by simp
  then show "fst (BindingDone s') = 1" by (rule BindingDone_cached)
next
  assume "binding_done s = 0"
  then show "(fst (BindingDone s) = 1) =
      (shm_id s \<noteq> 0 \<and> compositor_id s \<noteq> 0 \<and> xdg_wm_base_id s \<noteq> 0)"
    by (simp add: BindingDone_def)
qed

theorem BindingDone_monotone_witness:
  "fst (BindingDone (toplevel_state\<lparr>binding_done := 0\<rparr>)) = 1
   \<and> (step all_ok)\<^sup>*\<^sup>* (snd (BindingDone (toplevel_state\<lparr>binding_done := 0\<rparr>)))
         (toplevel_state\<lparr>surface_state := ACKED_CONFIGURE\<rparr>)
   \<and> fst (BindingDone (toplevel_state\<lparr>surface_state := ACKED_CONFIGURE\<rparr>)) = 1
   \<and> binding_done (toplevel_state\<lparr>binding_done := 0\<rparr>) = 0
   \<and> shm_id (toplevel_state\<lparr>binding_done := 0\<rparr>) \<noteq> 0
   \<and> compositor_id (toplevel_state\<lparr>binding_done := 0\<rparr>) \<noteq> 0
   \<and> xdg_wm_base_id (toplevel_state\<lparr>binding_done := 0\<rparr>) \<noteq> 0"
proof -
  let ?s = "toplevel_state\<lparr>binding_done := 0\<rparr>"
  have ids: "shm_id ?s \<noteq> 0" "compositor_id ?s \<noteq> 0" "xdg_wm_base_id ?s \<noteq> 0"
    "binding_done ?s = 0"
    by (simp_all add: toplevel_state_def loop_entry_state_def zero_state_def)
  then have bd: "BindingDone ?s = (1, toplevel_state)"
    by (simp add: BindingDone_def) (simp add: toplevel_state_def)
  have "xdg_surface_id toplevel_state = 7" "socket_fd toplevel_state = 3"
    "registry_id toplevel_state = 2" "xdg_wm_base_id toplevel_state = 5"
    by (simp_all add: toplevel_state_def loop_entry_state_def zero_state_def)
  then have "HandleWaylandEvent all_ok toplevel_state
     \<lparr>object_id = 7, opcode = 0, payload_size = 4, payload = Some [11, 0, 0, 0]\<rparr>
     loop_entry_world =
     Ret (1, toplevel_state\<lparr>surface_state := ACKED_CONFIGURE\<rparr>,
          loop_entry_world\<lparr>syscalls := syscalls loop_entry_world
            @ [SysSend 3 [7, 0, 0, 0, 4, 0, 12, 0, 11, 0, 0, 0]]\<rparr>)"
    by (rule configure_event_handled)
  then have "step all_ok toplevel_state (toplevel_state\<lparr>surface_state := ACKED_CONFIGURE\<rparr>)"
    by (rule step_event)
  then have st: "(step all_ok)\<^sup>*\<^sup>* (snd (BindingDone ?s))
      (toplevel_state\<lparr>surface_state := ACKED_CONFIGURE\<rparr>)"
    by (simp add: bd)
  from BindingDone_monotone [of ?s all_ok "toplevel_state\<lparr>surface_state := ACKED_CONFIGURE\<rparr>"]
    st bd ids
  show ?thesis by simp
qed

section \<open>The surface state\<close>

lemma configure_sets_acked:
  assumes "HandleWaylandEvent env s e w = Ret (1, s', w')"
    and "object_id e = xdg_surface_id s" and "opcode e = 0"
    and "object_id e \<noteq> registry_id s" and "object_id e \<noteq> 1"
    and "object_id e \<noteq> xdg_wm_base_id s"
  shows "surface_state s' = ACKED_CONFIGURE"
  using assms
  by (auto simp: HandleWaylandEvent_def elim!: and_then_RetE defined_RetE
      split: if_splits prod.splits)

text \<open>
  Claim C2, as stated: no transition takes the surface state from \<open>ATTACHED\<close> back to
  \<open>ACKED_CONFIGURE\<close>. The code has such a transition. In a state whose surface state is
  \<open>SURFACE_ATTACHED\<close>, a configure event for the shell surface (object 7, opcode 0, a
  4-byte serial) is acknowledged and the state becomes \<open>ACKED_CONFIGURE\<close>.
\<close>

theorem surface_state_back_transition_counterexample:
  "surface_state attached_state = SURFACE_ATTACHED
   \<and> HandleWaylandEvent all_ok attached_state
        \<lparr>object_id = 7, opcode = 0, payload_size = 4, payload = Some [11, 0, 0, 0]\<rparr>
        loop_entry_world =
      Ret (1, attached_state\<lparr>surface_state := ACKED_CONFIGURE\<rparr>,
           loop_entry_world\<lparr>syscalls := syscalls loop_entry_world
              @ [SysSend 3 [7, 0, 0, 0, 4, 0, 12, 0, 11, 0, 0, 0]]\<rparr>)
   \<and> surface_state (attached_state\<lparr>surface_state := ACKED_CONFIGURE\<rparr>) = ACKED_CONFIGURE"
proof -
  have "xdg_surface_id attached_state = 7" "socket_fd attached_state = 3"
    "registry_id attached_state = 2" "xdg_wm_base_id attached_state = 5"
    by (simp_all add: attached_state_def toplevel_state_def loop_entry_state_def zero_state_def)
  then show ?thesis
    by (simp add: configure_event_handled) (simp add: attached_state_def)
qed

text \<open>
  Claim C2, amended: the surface state moves along \<open>NONE \<rightarrow> ACKED_CONFIGURE \<rightarrow> ATTACHED\<close>
  and, besides, from \<open>ATTACHED\<close> back to \<open>ACKED_CONFIGURE\<close>; nothing else changes it.
  A handled event changes the surface state only when it is a configure event for the
  shell surface with a 4-byte payload whose acknowledgement was sent (the handler returns
  1), and such an event sets \<open>ACKED_CONFIGURE\<close> whatever the state was, \<open>SURFACE_ATTACHED\<close>
  included. \<^verbatim>\<open>RenderFrame\<close>, which the event loop calls only in \<open>ACKED_CONFIGURE\<close>, sets
  \<open>SURFACE_ATTACHED\<close> when it succeeds and changes nothing when it fails; \<^verbatim>\<open>BindingDone\<close>
  and \<^verbatim>\<open>CreateSurface\<close> change nothing. So every step of the event loop keeps the state,
  sets \<open>ACKED_CONFIGURE\<close>, or goes from \<open>ACKED_CONFIGURE\<close> to \<open>SURFACE_ATTACHED\<close>; every
  run of the event loop that returns is a sequence of such steps; and no sequence of
  them leads back to \<open>NONE\<close>.
\<close>

theorem surface_state_transitions:
  "(HandleWaylandEvent env s e w = Ret (r, s', w') \<and> surface_state s' \<noteq> surface_state s \<longrightarrow>
       surface_state s' = ACKED_CONFIGURE \<and> r = 1 \<and> object_id e = xdg_surface_id s
       \<and> opcode e = 0 \<and> payload_size e = 4 \<and> object_id e \<noteq> registry_id s
       \<and> object_id e \<noteq> 1 \<and> object_id e \<noteq> xdg_wm_base_id s)
   \<and> (HandleWaylandEvent env s e w = Ret (1, s', w') \<and> object_id e = xdg_surface_id s
        \<and> opcode e = 0 \<and> object_id e \<noteq> registry_id s \<and> object_id e \<noteq> 1
        \<and> object_id e \<noteq> xdg_wm_base_id s \<longrightarrow>
       surface_state s' = ACKED_CONFIGURE)
   \<and> (RenderFrame env s w = Ret (r, s', w') \<longrightarrow>
       (if r = 0 then surface_state s' = surface_state s
        else surface_state s' = SURFACE_ATTACHED))
   \<and> (BindingDone s = (r, s') \<longrightarrow> surface_state s' = surface_state s)
   \<and> (CreateSurface env s w = Ret (r, s', w') \<longrightarrow> surface_state s' = surface_state s)
   \<and> (loop_step env s s' \<longrightarrow> surface_transition (surface_state s) (surface_state s'))
   \<and> (EventLoop_loop env s recv_buffer w ticks = Ret (r, s', w') \<longrightarrow>
       (loop_step env)\<^sup>*\<^sup>* s s')
   \<and> ((loop_step env)\<^sup>*\<^sup>* s s' \<and> surface_state s \<noteq> NONE \<longrightarrow> surface_state s' \<noteq> NONE)"
proof -
  have changed: "surface_state s' = ACKED_CONFIGURE \<and> r = 1 \<and> object_id e = xdg_surface_id s
       \<and> opcode e = 0 \<and> payload_size e = 4 \<and> object_id e \<noteq> registry_id s
       \<and> object_id e \<noteq> 1 \<and> object_id e \<noteq> xdg_wm_base_id s"
    if "HandleWaylandEvent env s e w = Ret (r, s', w') \<and> surface_state s' \<noteq> surface_state s"
    using that HandleWaylandEvent_frame [of env s e w r s' w'] by blast
  have acked: "surface_state s' = ACKED_CONFIGURE"
    if "HandleWaylandEvent env s e w = Ret (1, s', w') \<and> object_id e = xdg_surface_id s
        \<and> opcode e = 0 \<and> object_id e \<noteq> registry_id s \<and> object_id e \<noteq> 1
        \<and> object_id e \<noteq> xdg_wm_base_id s"
    using that by (auto intro: configure_sets_acked)
  have render: "if r = 0 then surface_state s' = surface_state s
      else surface_state s' = SURFACE_ATTACHED"
    if "RenderFrame env s w = Ret (r, s', w')"
    using RenderFrame_frame [OF that] by (simp split: if_splits)
  have binding: "surface_state s' = surface_state s" if "BindingDone s = (r, s')"
    using BindingDone_frame [OF that] by simp
  have create: "surface_state s' = surface_state s" if "CreateSurface env s w = Ret (r, s', w')"
    using CreateSurface_frame [OF that] by (simp add: same_progress_def)
  have one: "surface_transition (surface_state s) (surface_state s')" if "loop_step env s s'"
    using that by (rule loop_step_transition)
  have run: "(loop_step env)\<^sup>*\<^sup>* s s'"
    if "EventLoop_loop env s recv_buffer w ticks = Ret (r, s', w')"
    using that by (rule EventLoop_loop_runs)
  have never_none: "surface_state s' \<noteq> NONE"
    if "(loop_step env)\<^sup>*\<^sup>* s s' \<and> surface_state s \<noteq> NONE"
    using that steps_keep [of env s s'] by (auto dest: loop_steps_steps)
  from changed acked render binding create one run never_none show ?thesis by blast
qed

theorem surface_state_transitions_witness:
  "HandleWaylandEvent all_ok attached_state
     \<lparr>object_id = 7, opcode = 0, payload_size = 4, payload = Some [11, 0, 0, 0]\<rparr>
     loop_entry_world =
     Ret (1, attached_state\<lparr>surface_state := ACKED_CONFIGURE\<rparr>,
          loop_entry_world\<lparr>syscalls := syscalls loop_entry_world
            @ [SysSend 3 [7, 0, 0, 0, 4, 0, 12, 0, 11, 0, 0, 0]]\<rparr>)
   \<and> surface_state (attached_state\<lparr>surface_state := ACKED_CONFIGURE\<rparr>)
        \<noteq> surface_state attached_state
   \<and> xdg_surface_id attached_state = 7
   \<and> (7 :: uint32) \<noteq> registry_id attached_state
   \<and> (7 :: uint32) \<noteq> xdg_wm_base_id attached_state
   \<and> loop_step all_ok attached_state (attached_state\<lparr>surface_state := ACKED_CONFIGURE\<rparr>)
   \<and> surface_transition (surface_state attached_state)
        (surface_state (attached_state\<lparr>surface_state := ACKED_CONFIGURE\<rparr>))
   \<and> (loop_step all_ok)\<^sup>*\<^sup>* attached_state (attached_state\<lparr>surface_state := ACKED_CONFIGURE\<rparr>)
   \<and> surface_state attached_state \<noteq> NONE
   \<and> surface_state (attached_state\<lparr>surface_state := ACKED_CONFIGURE\<rparr>) \<noteq> NONE"
proof -
  let ?e = "\<lparr>object_id = 7, opcode = 0, payload_size = 4, payload = Some [11, 0, 0, 0]\<rparr>"
  let ?s' = "attached_state\<lparr>surface_state := ACKED_CONFIGURE\<rparr>"
  let ?w' = "loop_entry_world\<lparr>syscalls := syscalls loop_entry_world
            @ [SysSend 3 [7, 0, 0, 0, 4, 0, 12, 0, 11, 0, 0, 0]]\<rparr>"
  have ids: "xdg_surface_id attached_state = 7" "socket_fd attached_state = 3"
    "registry_id attached_state = 2" "xdg_wm_base_id attached_state = 5"
    by (simp_all add: attached_state_def toplevel_state_def loop_entry_state_def zero_state_def)
  then have h: "HandleWaylandEvent all_ok attached_state ?e loop_entry_world = Ret (1, ?s', ?w')"
    by (rule configure_event_handled)
  then have st: "loop_step all_ok attached_state ?s'" by (rule loop_event)
  then have sts: "(loop_step all_ok)\<^sup>*\<^sup>* attached_state ?s'" by (rule r_into_rtranclp)
  have ne: "surface_state attached_state \<noteq> NONE"
    and ch: "surface_state ?s' \<noteq> surface_state attached_state"
    by (simp_all add: attached_state_def)
  from surface_state_transitions [of all_ok attached_state ?e loop_entry_world 1 ?s' ?w']
    h st sts ne ch ids
  show ?thesis by simp
qed

end
